theory Spec2Isabelle
  imports Complex_Main
begin

section \<open>Numeric values\<close>

text \<open>
  The arrays of the reduction scheme hold IEEE doubles. A value is modelled as NaN, one of
  the two infinities, or a finite number. Finite arithmetic is exact (a real number):
  rounding, overflow to infinity and the sign of zero are not represented. The special
  values follow IEEE 754 as numpy applies it with its default error state, where a division
  by zero or an invalid operation yields an infinity or NaN and a warning, never an
  exception.
\<close>

datatype fl = NaN | PInf | MInf | Fin real

fun isnan :: "fl \<Rightarrow> bool" where
  "isnan NaN = True"
| "isnan _ = False"

fun fneg :: "fl \<Rightarrow> fl" where
  "fneg NaN = NaN"
| "fneg PInf = MInf"
| "fneg MInf = PInf"
| "fneg (Fin x) = Fin (- x)"

fun fadd :: "fl \<Rightarrow> fl \<Rightarrow> fl" where
  "fadd NaN _ = NaN"
| "fadd _ NaN = NaN"
| "fadd PInf MInf = NaN"
| "fadd MInf PInf = NaN"
| "fadd PInf _ = PInf"
| "fadd _ PInf = PInf"
| "fadd MInf _ = MInf"
| "fadd _ MInf = MInf"
| "fadd (Fin x) (Fin y) = Fin (x + y)"

definition fsub :: "fl \<Rightarrow> fl \<Rightarrow> fl" where
  "fsub a b = fadd a (fneg b)"

text \<open>The sign of an infinite product or quotient: positive when the signs agree.\<close>

definition inf_of :: "bool \<Rightarrow> fl" where
  "inf_of pos = (if pos then PInf else MInf)"

fun fmul :: "fl \<Rightarrow> fl \<Rightarrow> fl" where
  "fmul NaN _ = NaN"
| "fmul _ NaN = NaN"
| "fmul PInf PInf = PInf"
| "fmul PInf MInf = MInf"
| "fmul MInf PInf = MInf"
| "fmul MInf MInf = PInf"
| "fmul PInf (Fin y) = (if y = 0 then NaN else inf_of (0 < y))"
| "fmul MInf (Fin y) = (if y = 0 then NaN else inf_of (y < 0))"
| "fmul (Fin x) PInf = (if x = 0 then NaN else inf_of (0 < x))"
| "fmul (Fin x) MInf = (if x = 0 then NaN else inf_of (x < 0))"
| "fmul (Fin x) (Fin y) = Fin (x * y)"

fun fdiv :: "fl \<Rightarrow> fl \<Rightarrow> fl" where
  "fdiv NaN _ = NaN"
| "fdiv _ NaN = NaN"
| "fdiv PInf PInf = NaN"
| "fdiv PInf MInf = NaN"
| "fdiv MInf PInf = NaN"
| "fdiv MInf MInf = NaN"
| "fdiv PInf (Fin y) = inf_of (0 \<le> y)"
| "fdiv MInf (Fin y) = inf_of (y < 0)"
| "fdiv (Fin x) PInf = Fin 0"
| "fdiv (Fin x) MInf = Fin 0"
| "fdiv (Fin x) (Fin y) =
     (if y = 0 then (if x = 0 then NaN else inf_of (0 < x)) else Fin (x / y))"

text \<open>\<open>np.log\<close> and \<open>np.log10\<close>: NaN below zero, minus infinity at zero.\<close>

fun flog :: "fl \<Rightarrow> fl" where
  "flog NaN = NaN"
| "flog PInf = PInf"
| "flog MInf = NaN"
| "flog (Fin x) = (if x < 0 then NaN else if x = 0 then MInf else Fin (ln x))"

fun flog10 :: "fl \<Rightarrow> fl" where
  "flog10 NaN = NaN"
| "flog10 PInf = PInf"
| "flog10 MInf = NaN"
| "flog10 (Fin x) = (if x < 0 then NaN else if x = 0 then MInf else Fin (log 10 x))"

text \<open>
  \<open>c ** x\<close> for a Python float \<open>c\<close> and an array element \<open>x\<close>. Every base in the scheme
  is a quotient of two positive atomic masses, so only a positive base is modelled.
\<close>

fun fpow :: "real \<Rightarrow> fl \<Rightarrow> fl" where
  "fpow c NaN = (if c = 1 then Fin 1 else NaN)"
| "fpow c PInf = (if 1 < c then PInf else if c = 1 then Fin 1 else Fin 0)"
| "fpow c MInf = (if 1 < c then Fin 0 else if c = 1 then Fin 1 else PInf)"
| "fpow c (Fin x) = Fin (c powr x)"

fun fsqrt :: "fl \<Rightarrow> fl" where
  "fsqrt NaN = NaN"
| "fsqrt PInf = PInf"
| "fsqrt MInf = NaN"
| "fsqrt (Fin x) = (if x < 0 then NaN else Fin (sqrt x))"

text \<open>Comparisons: every comparison with NaN is false, so \<open>x != 0\<close> holds of NaN.\<close>

fun fgt0 :: "fl \<Rightarrow> bool" where
  "fgt0 NaN = False"
| "fgt0 PInf = True"
| "fgt0 MInf = False"
| "fgt0 (Fin x) = (0 < x)"

definition fne0 :: "fl \<Rightarrow> bool" where
  "fne0 x = (x \<noteq> Fin 0)"

text \<open>\<open>np.clip(x, lo, hi)\<close> on one element: NaN stays NaN.\<close>

fun fclip :: "real \<Rightarrow> real \<Rightarrow> fl \<Rightarrow> fl" where
  "fclip lo hi NaN = NaN"
| "fclip lo hi PInf = Fin hi"
| "fclip lo hi MInf = Fin lo"
| "fclip lo hi (Fin x) = Fin (min (max x lo) hi)"

type_synonym series = "fl list"


section \<open>numpy array operations\<close>

text \<open>A raised Python exception, with the text that \<open>str(e)\<close> gives.\<close>

datatype exn = Exn string

text \<open>
  Elementwise binary operations on one-dimensional arrays broadcast: equal lengths pair up,
  a length-one operand is repeated, anything else raises ValueError.
\<close>

definition broadcast2 :: "('a \<Rightarrow> 'b \<Rightarrow> 'c) \<Rightarrow> 'a list \<Rightarrow> 'b list \<Rightarrow> exn + 'c list" where
  "broadcast2 f xs ys =
     (if length xs = length ys then Inr (map2 f xs ys)
      else if length xs = 1 then Inr (map (f (hd xs)) ys)
      else if length ys = 1 then Inr (map (\<lambda>x. f x (hd ys)) xs)
      else Inl (Exn ''operands could not be broadcast together''))"

text \<open>\<open>a[m]\<close> with a boolean array \<open>m\<close>: IndexError unless the lengths agree.\<close>

definition bool_index :: "'a list \<Rightarrow> bool list \<Rightarrow> exn + 'a list" where
  "bool_index xs m =
     (if length m = length xs then Inr (map fst (filter snd (zip xs m)))
      else Inl (Exn ''boolean index did not match indexed array''))"

definition fsum :: "series \<Rightarrow> fl" where
  "fsum xs = foldl fadd (Fin 0) xs"

definition fdot :: "series \<Rightarrow> series \<Rightarrow> fl" where
  "fdot xs ys = fsum (map2 fmul xs ys)"

text \<open>
  \<open>np.corrcoef(x, y)[0, 1]\<close> for two arrays of one length, as numpy computes it: the
  covariance matrix of the rows (row means subtracted, products summed, scaled by
  \<open>1 / fact\<close> where \<open>fact = n - 1\<close>, replaced by \<open>0.0\<close> when it is not positive), its entry
  divided by the square roots of both diagonal entries, and the result clipped to
  \<open>[-1, 1]\<close>.
\<close>

definition corrcoef01 :: "series \<Rightarrow> series \<Rightarrow> fl" where
  "corrcoef01 x y =
     (let n = length x;
          avgx = fdiv (fsum x) (Fin (real n));
          avgy = fdiv (fsum y) (Fin (real (length y)));
          fact = (if int n - 1 \<le> 0 then 0 else real n - 1);
          X0 = map (\<lambda>a. fsub a avgx) x;
          X1 = map (\<lambda>a. fsub a avgy) y;
          w = fdiv (Fin 1) (Fin fact);
          c00 = fmul (fdot X0 X0) w;
          c01 = fmul (fdot X0 X1) w;
          c11 = fmul (fdot X1 X1) w
      in fclip (- 1) 1 (fdiv (fdiv c01 (fsqrt c00)) (fsqrt c11)))"

section \<open>The isotope correction engine\<close>

text \<open>
  The settings dictionary of the scheme. Version 4.9 reads every key but
  \<open>PropagateError\<close>.
\<close>

record settings =
  IndexChannel :: string
  MaskChannel :: string
  ReferenceMaterial :: string
  MaskCutoff :: fl
  MaskTrim :: fl
  NdTrue :: fl
  Sm147_149 :: fl
  Sm144_149 :: fl
  Sm148_149 :: fl
  PropagateError :: bool

text \<open>
  One point of the shared time axis: the index channel's time, the weight that
  \<open>createMaskFromCutoff\<close> gave it, and the seven baseline-subtracted count rates. The store
  keeps every series on one time axis, so the arrays of the source are the columns of a list
  of samples and each array expression is its elementwise function mapped over that list.
\<close>

record sample =
  time_s :: fl
  mask_s :: fl
  Nd143 :: fl
  Nd144 :: fl
  Nd145 :: fl
  Nd146 :: fl
  Nd148 :: fl
  Sm147 :: fl
  Sm149 :: fl

definition Sm147_149_meas :: "sample \<Rightarrow> fl" where
  "Sm147_149_meas s = (if fne0 (Sm149 s) then fdiv (Sm147 s) (Sm149 s) else NaN)"

definition SmFract :: "settings \<Rightarrow> sample \<Rightarrow> fl" where
  "SmFract cfg s =
     fmul (fdiv (flog (fdiv (Sm147_149 cfg) (Sm147_149_meas s)))
                (flog (Fin (146.9149 / 148.9172))))
          (mask_s s)"

definition Sm144 :: "settings \<Rightarrow> sample \<Rightarrow> fl" where
  "Sm144 cfg s =
     fmul (fmul (fmul (Sm149 s) (Sm144_149 cfg)) (fpow (148.9172 / 143.912) (SmFract cfg s)))
          (mask_s s)"

definition Sm148 :: "settings \<Rightarrow> sample \<Rightarrow> fl" where
  "Sm148 cfg s =
     fmul (fmul (fmul (Sm149 s) (Sm148_149 cfg)) (fpow (148.9172 / 147.9148) (SmFract cfg s)))
          (mask_s s)"

definition Nd144c :: "settings \<Rightarrow> sample \<Rightarrow> fl" where
  "Nd144c cfg s = fmul (fsub (Nd144 s) (Sm144 cfg s)) (mask_s s)"

definition Nd148c :: "settings \<Rightarrow> sample \<Rightarrow> fl" where
  "Nd148c cfg s = fmul (fsub (Nd148 s) (Sm148 cfg s)) (mask_s s)"

definition Nd144c_safe :: "settings \<Rightarrow> sample \<Rightarrow> fl" where
  "Nd144c_safe cfg s = (if fne0 (Nd144c cfg s) then Nd144c cfg s else NaN)"

definition Nd146_144_meas :: "settings \<Rightarrow> sample \<Rightarrow> fl" where
  "Nd146_144_meas cfg s =
     (if fne0 (Nd144c_safe cfg s) then fdiv (Nd146 s) (Nd144c_safe cfg s) else NaN)"

definition NdFract :: "settings \<Rightarrow> sample \<Rightarrow> fl" where
  "NdFract cfg s =
     fmul (fdiv (flog (fdiv (NdTrue cfg) (Nd146_144_meas cfg s)))
                (flog (Fin (145.9131 / 143.9098))))
          (mask_s s)"

definition Nd143_144_Corr :: "settings \<Rightarrow> sample \<Rightarrow> fl" where
  "Nd143_144_Corr cfg s =
     fmul (fmul (fdiv (Nd143 s) (Nd144c_safe cfg s)) (fpow (142.9098 / 143.9098) (NdFract cfg s)))
          (mask_s s)"

definition Nd145_144_Corr :: "settings \<Rightarrow> sample \<Rightarrow> fl" where
  "Nd145_144_Corr cfg s =
     fmul (fmul (fdiv (Nd145 s) (Nd144c_safe cfg s)) (fpow (144.9126 / 143.9098) (NdFract cfg s)))
          (mask_s s)"

definition Nd148_144_Corr :: "settings \<Rightarrow> sample \<Rightarrow> fl" where
  "Nd148_144_Corr cfg s =
     fmul (fmul (fdiv (Nd148c cfg s) (Nd144c_safe cfg s))
                (fpow (147.916889 / 143.9098) (NdFract cfg s)))
          (mask_s s)"

definition Sm147_Nd144_Corr :: "settings \<Rightarrow> sample \<Rightarrow> fl" where
  "Sm147_Nd144_Corr cfg s = fmul (fdiv (Sm147 s) (Nd144c_safe cfg s)) (mask_s s)"

definition TotalNd :: "sample \<Rightarrow> fl" where
  "TotalNd s = fmul (fdiv (Nd146 s) (Fin 0.172)) (mask_s s)"


section \<open>The host and the run\<close>

datatype seltype = Baseline | ReferenceMaterial_t | Sample_t

record selgroup =
  sg_name :: string
  sg_type :: seltype

text \<open>
  The calls a run makes on the host that change it or tell the user something, in the
  order they are made. A series is named by its name in the store.
\<close>

datatype event =
    Message string
  | Progress nat
  | Finished
  | SetSetting string string
  | SetIndexChannel string
  | CreateMaskFromCutoff string fl fl
  | BaselineSubtract string
  | CreateTimeSeries string series
  | CreateSpline string string
  | PropagateErrors "selgroup list" "string list" string string
  | RegisterAssociatedResult string
  | SetData string series

text \<open>
  What the host answers. The calls that the source guards with \<open>try\<close> may raise: spline
  construction, spline evaluation, the accepted-value lookup and the extraction of a
  selection's data. The other calls return.
\<close>

record host =
  drs_settings :: settings
  rmNames :: "string list"
  inputChannels :: "string list"
  samples :: "sample list"
  createSpline :: "string \<Rightarrow> string \<Rightarrow> exn option"
  spline :: "string \<Rightarrow> string \<Rightarrow> exn + series"
  referenceMaterialData :: "string \<Rightarrow> string \<Rightarrow> exn + fl"
  selectionGroupList :: "selgroup list"
  dataForSelection :: "series \<Rightarrow> selgroup \<Rightarrow> exn + series"

text \<open>
  The output series of the store after a sequence of calls. The host interface describes
  \<open>createTimeSeries\<close> as creation or overwrite by name, and \<open>setData\<close> replaces the values
  of a series.
\<close>

fun apply_event :: "(string \<Rightarrow> series option) \<Rightarrow> event \<Rightarrow> (string \<Rightarrow> series option)" where
  "apply_event st (CreateTimeSeries n v) = st(n \<mapsto> v)"
| "apply_event st (SetData n v) = st(n \<mapsto> v)"
| "apply_event st _ = st"

definition store_of :: "event list \<Rightarrow> (string \<Rightarrow> series option)" where
  "store_of tr = foldl apply_event Map.empty tr"

text \<open>
  \<open>data.timeSeries(name)\<close> followed by a method call: on a name the store does not hold the
  host gives \<open>None\<close>, and the method call on it raises.
\<close>

definition timeSeries :: "(string \<Rightarrow> series option) \<Rightarrow> string \<Rightarrow> exn + series" where
  "timeSeries st n =
     (case st n of
        None \<Rightarrow> Inl (Exn ''NoneType object has no attribute dataForSelection'')
      | Some v \<Rightarrow> Inr v)"

subsection \<open>The rho diagnostic\<close>

text \<open>
  \<open>valid = ~np.isnan(sm) & ~np.isnan(nd) & (sm > 0) & (nd > 0)\<close>, the conjunctions taken
  from the left, each one broadcasting.
\<close>

definition valid_mask :: "series \<Rightarrow> series \<Rightarrow> exn + bool list" where
  "valid_mask sm nd =
     (case broadcast2 (\<and>) (map (\<lambda>x. \<not> isnan x) sm) (map (\<lambda>x. \<not> isnan x) nd) of
        Inl e \<Rightarrow> Inl e
      | Inr a \<Rightarrow>
          (case broadcast2 (\<and>) a (map fgt0 sm) of
             Inl e \<Rightarrow> Inl e
           | Inr b \<Rightarrow> broadcast2 (\<and>) b (map fgt0 nd)))"

text \<open>The body of the \<open>try\<close> block once both arrays are extracted.\<close>

definition rho_of_arrays :: "series \<Rightarrow> series \<Rightarrow> exn + fl" where
  "rho_of_arrays sm nd =
     (case valid_mask sm nd of
        Inl e \<Rightarrow> Inl e
      | Inr valid \<Rightarrow>
          if list_ex (\<lambda>b. b) valid then
            (case bool_index sm valid of
               Inl e \<Rightarrow> Inl e
             | Inr x \<Rightarrow>
                 (case bool_index nd valid of
                    Inl e \<Rightarrow> Inl e
                  | Inr y \<Rightarrow> Inr (corrcoef01 (map flog10 x) (map flog10 y))))
          else Inr NaN)"

definition rho_try :: "host \<Rightarrow> (string \<Rightarrow> series option) \<Rightarrow> selgroup \<Rightarrow> exn + fl" where
  "rho_try h st sel =
     (case timeSeries st ''StdCorr_147Sm_144'' of
        Inl e \<Rightarrow> Inl e
      | Inr ts147 \<Rightarrow>
          (case dataForSelection h ts147 sel of
             Inl e \<Rightarrow> Inl e
           | Inr sm \<Rightarrow>
               (case timeSeries st ''StdCorr_143Nd_144'' of
                  Inl e \<Rightarrow> Inl e
                | Inr ts143 \<Rightarrow>
                    (case dataForSelection h ts143 sel of
                       Inl e \<Rightarrow> Inl e
                     | Inr nd \<Rightarrow> rho_of_arrays sm nd))))"

text \<open>
  The associated result: the value it sets and the messages it sends. The handler only
  formats a message from the selection's name and the exception, so the function returns
  a value on every path.
\<close>

definition rho_corr_147Sm_143Nd ::
  "host \<Rightarrow> (string \<Rightarrow> series option) \<Rightarrow> selgroup \<Rightarrow> fl \<times> event list" where
  "rho_corr_147Sm_143Nd h st sel =
     (case rho_try h st sel of
        Inr v \<Rightarrow> (v, [])
      | Inl (Exn e) \<Rightarrow>
          (NaN, [Message (''[rho_corr_147Sm_143Nd] Error in selection '' @ sg_name sel
                          @ '': '' @ e)]))"

subsection \<open>Reference-material resolution\<close>

definition resolve_rm :: "string \<Rightarrow> string list \<Rightarrow> string option" where
  "resolve_rm rmName names =
     (if rmName \<notin> set names then
        (if ''G_LREE'' \<in> set names then Some ''G_LREE''
         else if names \<noteq> [] then Some (hd names)
         else None)
      else Some rmName)"

subsection \<open>Standardization\<close>

text \<open>
  The body of one \<open>try\<close> block: the spline is built and read, the accepted value is looked
  up, and the raw series times the accepted value is divided by the zero-guarded spline.
\<close>

definition std_try :: "host \<Rightarrow> string \<Rightarrow> string \<Rightarrow> string \<Rightarrow> series \<Rightarrow> exn + series" where
  "std_try h rmName nm key raw =
     (case createSpline h rmName nm of
        Some e \<Rightarrow> Inl e
      | None \<Rightarrow>
          (case spline h rmName nm of
             Inl e \<Rightarrow> Inl e
           | Inr sp \<Rightarrow>
               (case referenceMaterialData h rmName key of
                  Inl e \<Rightarrow> Inl e
                | Inr std \<Rightarrow>
                    broadcast2 fdiv (map (\<lambda>x. fmul x std) raw)
                      (map (\<lambda>v. if fne0 v then v else NaN) sp))))"

text \<open>
  The block with its initialisation and handler: the standardized series and the calls
  made. The series starts as \<open>np.full_like(raw, np.nan)\<close> and is assigned only when the
  whole body succeeds.
\<close>

definition std_block ::
  "host \<Rightarrow> string \<Rightarrow> string \<Rightarrow> string \<Rightarrow> series \<Rightarrow> series \<times> event list" where
  "std_block h rmName nm key raw =
     (case std_try h rmName nm key raw of
        Inr v \<Rightarrow> (v, [CreateSpline rmName nm])
      | Inl (Exn e) \<Rightarrow>
          (replicate (length raw) NaN,
           [CreateSpline rmName nm,
            Message (''Warning: Standard correction for '' @ key @ '' failed: '' @ e)]))"

subsection \<open>The flat rho series\<close>

text \<open>
  The loop over the selection groups: the first value that is not NaN ends it. The call
  of the associated result returns on every path, so the loop's own handler is not entered.
\<close>

fun first_rho ::
  "host \<Rightarrow> (string \<Rightarrow> series option) \<Rightarrow> selgroup list \<Rightarrow> fl \<times> event list" where
  "first_rho h st [] = (NaN, [])"
| "first_rho h st (sel # sels) =
     (if sg_type sel \<noteq> Baseline then
        (case rho_corr_147Sm_143Nd h st sel of
           (v, ms) \<Rightarrow>
             if \<not> isnan v then (v, ms)
             else (case first_rho h st sels of (r, ms') \<Rightarrow> (r, ms @ ms')))
      else first_rho h st sels)"

definition rho_label :: string where
  "rho_label = ''log10(StdCorr_147Sm/144Nd) vs log10(StdCorr_143Nd/144Nd) rho''"

text \<open>Lines 72 to 77 of both versions: index channel, mask, baseline subtraction.\<close>

definition prepare :: "host \<Rightarrow> event list" where
  "prepare h =
     SetIndexChannel (IndexChannel (drs_settings h))
     # CreateMaskFromCutoff (MaskChannel (drs_settings h)) (MaskCutoff (drs_settings h))
         (MaskTrim (drs_settings h))
     # map BaselineSubtract (inputChannels h)"

text \<open>The end of both versions: the flat rho series, the scan, the closing calls.\<close>

definition rho_series :: "host \<Rightarrow> event list \<Rightarrow> event list" where
  "rho_series h tr =
     (let tr1 = tr @ [CreateTimeSeries ''rho'' (replicate (length (samples h)) NaN)]
      in case first_rho h (store_of tr1) (selectionGroupList h) of
           (first_rho_val, ms) \<Rightarrow>
             tr1 @ ms
             @ (if \<not> isnan first_rho_val
                then [SetData ''rho'' (replicate (length (samples h)) first_rho_val)]
                else [])
             @ [Progress 100, Message ''Finished!'', Finished])"

subsection \<open>Version 4.9\<close>

text \<open>
  The run once the reference material is resolved to \<open>rmName\<close>, up to the registration
  of the associated result: the calls made after the opening messages.
\<close>

definition outputs_v49 :: "host \<Rightarrow> string \<Rightarrow> event list" where
  "outputs_v49 h rmName =
     (let cfg = drs_settings h;
          fallback =
            (if ReferenceMaterial cfg \<notin> set (rmNames h)
             then [Message (''Using fallback reference material: '' @ rmName),
                   SetSetting ''ReferenceMaterial'' rmName]
             else []);
          raw143 = map (Nd143_144_Corr cfg) (samples h);
          raw147 = map (Sm147_Nd144_Corr cfg) (samples h);
          b143 = std_block h rmName ''Nd143_144_Corr'' ''143Nd/144Nd'' raw143;
          b147 = std_block h rmName ''Sm147_Nd144_Corr'' ''147Sm/144Nd'' raw147
      in fallback @ prepare h
         @ [CreateTimeSeries ''Nd143_144_Corr'' raw143,
            CreateTimeSeries ''Sm147_Nd144_Corr'' raw147]
         @ snd b143 @ snd b147
         @ [CreateTimeSeries ''StdCorr_147Sm_144'' (fst b147),
            CreateTimeSeries ''StdCorr_143Nd_144'' (fst b143),
            CreateTimeSeries ''Nd145_144_Corr'' (map (Nd145_144_Corr cfg) (samples h)),
            CreateTimeSeries ''Nd148_144_Corr'' (map (Nd148_144_Corr cfg) (samples h)),
            CreateTimeSeries ''NdFract'' (map (NdFract cfg) (samples h)),
            CreateTimeSeries ''SmFract'' (map (SmFract cfg) (samples h)),
            CreateTimeSeries ''TotalNd'' (map TotalNd (samples h)),
            RegisterAssociatedResult rho_label])"

definition start_v49 :: "event list" where
  "start_v49 = [Message ''Running Sm-Nd Isotopes_UWA_v4.9...'', Progress 0]"

definition runDRS_v49 :: "host \<Rightarrow> event list" where
  "runDRS_v49 h =
     (case resolve_rm (ReferenceMaterial (drs_settings h)) (rmNames h) of
        None \<Rightarrow>
          start_v49 @ [Message ''Error: No reference material available.'', Finished]
      | Some rmName \<Rightarrow> rho_series h (start_v49 @ outputs_v49 h rmName))"

subsection \<open>Version 4.8\<close>

text \<open>
  Version 4.8 words its messages differently, creates \<open>Nd143_144_Corr\<close> once more among
  the final series, and propagates errors when the setting asks for it.
\<close>

definition outputs_v48 :: "host \<Rightarrow> string \<Rightarrow> event list" where
  "outputs_v48 h rmName =
     (let cfg = drs_settings h;
          fallback =
            (if ReferenceMaterial cfg \<notin> set (rmNames h)
             then [Message (''Selected reference material '' @ [CHR 0x27]
                            @ ReferenceMaterial cfg @ [CHR 0x27]
                            @ '' not found. Using '' @ [CHR 0x27] @ rmName
                            @ [CHR 0x27] @ '' instead.''),
                   SetSetting ''ReferenceMaterial'' rmName]
             else []);
          raw143 = map (Nd143_144_Corr cfg) (samples h);
          raw147 = map (Sm147_Nd144_Corr cfg) (samples h);
          b143 = std_block h rmName ''Nd143_144_Corr'' ''143Nd/144Nd'' raw143;
          b147 = std_block h rmName ''Sm147_Nd144_Corr'' ''147Sm/144Nd'' raw147;
          selGroups = filter (\<lambda>g. sg_type g \<noteq> Baseline) (selectionGroupList h);
          propagation =
            (if PropagateError cfg
             then [PropagateErrors selGroups [''StdCorr_143Nd_144''] ''Nd143_144_Corr'' rmName,
                   PropagateErrors selGroups [''StdCorr_147Sm_144''] ''Sm147_Nd144_Corr''
                     rmName,
                   Message ''Propagated uncertainties calculated.'']
             else [])
      in fallback @ prepare h
         @ [CreateTimeSeries ''Nd143_144_Corr'' raw143,
            CreateTimeSeries ''Sm147_Nd144_Corr'' raw147]
         @ snd b143 @ snd b147
         @ [CreateTimeSeries ''StdCorr_147Sm_144'' (fst b147),
            CreateTimeSeries ''StdCorr_143Nd_144'' (fst b143),
            CreateTimeSeries ''Nd143_144_Corr'' raw143,
            CreateTimeSeries ''Nd145_144_Corr'' (map (Nd145_144_Corr cfg) (samples h)),
            CreateTimeSeries ''Nd148_144_Corr'' (map (Nd148_144_Corr cfg) (samples h)),
            CreateTimeSeries ''NdFract'' (map (NdFract cfg) (samples h)),
            CreateTimeSeries ''SmFract'' (map (SmFract cfg) (samples h)),
            CreateTimeSeries ''TotalNd'' (map TotalNd (samples h))]
         @ propagation
         @ [RegisterAssociatedResult rho_label])"

definition start_v48 :: "event list" where
  "start_v48 = [Message ''Running Sm-Nd Isotopes_UWA_v48...'', Progress 0]"

definition runDRS_v48 :: "host \<Rightarrow> event list" where
  "runDRS_v48 h =
     (case resolve_rm (ReferenceMaterial (drs_settings h)) (rmNames h) of
        None \<Rightarrow>
          start_v48
          @ [Message ''Error: No reference material available. Please define one in your data.'',
             Finished]
      | Some rmName \<Rightarrow> rho_series h (start_v48 @ outputs_v48 h rmName))"

section \<open>Observations on a run\<close>

definition zero_or_NaN :: "fl \<Rightarrow> bool" where
  "zero_or_NaN v = (v = Fin 0 \<or> v = NaN)"

text \<open>The names of the series created, in the order of their creation.\<close>

fun created :: "event list \<Rightarrow> string list" where
  "created [] = []"
| "created (CreateTimeSeries n v # es) = n # created es"
| "created (e # es) = created es"

fun settings_written :: "event list \<Rightarrow> (string \<times> string) list" where
  "settings_written [] = []"
| "settings_written (SetSetting k v # es) = (k, v) # settings_written es"
| "settings_written (e # es) = settings_written es"

fun splines_requested :: "event list \<Rightarrow> (string \<times> string) list" where
  "splines_requested [] = []"
| "splines_requested (CreateSpline r n # es) = (r, n) # splines_requested es"
| "splines_requested (e # es) = splines_requested es"

fun propagated :: "event list \<Rightarrow> (selgroup list \<times> string list \<times> string \<times> string) list" where
  "propagated [] = []"
| "propagated (PropagateErrors gs ts src r # es) = (gs, ts, src, r) # propagated es"
| "propagated (e # es) = propagated es"

fun messages :: "event list \<Rightarrow> string list" where
  "messages [] = []"
| "messages (Message m # es) = m # messages es"
| "messages (e # es) = messages es"

text \<open>The writes to the series of one name: its creations and its \<open>setData\<close> calls.\<close>

fun writes_to :: "string \<Rightarrow> event list \<Rightarrow> event list" where
  "writes_to n [] = []"
| "writes_to n (CreateTimeSeries k v # es) =
     (if k = n then CreateTimeSeries k v # writes_to n es else writes_to n es)"
| "writes_to n (SetData k v # es) =
     (if k = n then SetData k v # writes_to n es else writes_to n es)"
| "writes_to n (e # es) = writes_to n es"

text \<open>The names of the series written, by creation or by \<open>setData\<close>, in order.\<close>

fun written :: "event list \<Rightarrow> string list" where
  "written [] = []"
| "written (CreateTimeSeries n v # es) = n # written es"
| "written (SetData n v # es) = n # written es"
| "written (e # es) = written es"

fun is_message :: "event \<Rightarrow> bool" where
  "is_message (Message m) = True"
| "is_message _ = False"

text \<open>
  A run resolved the reference material to \<open>r\<close>: both splines are requested for \<open>r\<close>, and
  the settings are written exactly when the name had to be replaced.
\<close>

definition resolves_as :: "event list \<Rightarrow> string \<Rightarrow> bool \<Rightarrow> bool" where
  "resolves_as tr r persisted =
     (settings_written tr = (if persisted then [(''ReferenceMaterial'', r)] else [])
      \<and> splines_requested tr = [(r, ''Nd143_144_Corr''), (r, ''Sm147_Nd144_Corr'')])"

text \<open>
  The paired samples the rho diagnostic is specified to keep: both values are not NaN and
  strictly positive.
\<close>

definition valid_pairs :: "series \<Rightarrow> series \<Rightarrow> (fl \<times> fl) list" where
  "valid_pairs sm nd =
     filter (\<lambda>(a, b). \<not> isnan a \<and> \<not> isnan b \<and> fgt0 a \<and> fgt0 b) (zip sm nd)"

text \<open>
  The product \<open>10 * x\<close> of an array element as binary64 gives it, but for rounding: a
  finite product at or beyond the overflow bound of the format (the largest double plus
  half a unit in its last place) is an infinity. Inside the diagnostic the finite arithmetic
  stays exact.
\<close>

definition overflow_bound :: real where
  "overflow_bound = 2 ^ 1024 - 2 ^ 970"

definition times10 :: "fl \<Rightarrow> fl" where
  "times10 x =
     (case fmul (Fin 10) x of
        Fin y \<Rightarrow> if overflow_bound \<le> y then PInf
                 else if y \<le> - overflow_bound then MInf
                 else Fin y
      | v \<Rightarrow> v)"

definition no_overflow10 :: "fl \<Rightarrow> bool" where
  "no_overflow10 x = (case x of Fin y \<Rightarrow> \<bar>10 * y\<bar> < overflow_bound | _ \<Rightarrow> True)"

section \<open>Example inputs\<close>

text \<open>The default settings of the settings widget and some small inputs.\<close>

definition default_settings :: settings where
  "default_settings =
     \<lparr>IndexChannel = ''Nd146'', MaskChannel = ''Nd146'', ReferenceMaterial = ''G_LREE'',
      MaskCutoff = Fin 0.1, MaskTrim = Fin 0, NdTrue = Fin 0.7219, Sm147_149 = Fin 1.08680,
      Sm144_149 = Fin 0.22332, Sm148_149 = Fin 0.81419, PropagateError = True\<rparr>"

definition sample_of :: "fl \<Rightarrow> fl \<Rightarrow> sample" where
  "sample_of m sm149 =
     \<lparr>time_s = Fin 0, mask_s = m, Nd143 = Fin 600, Nd144 = Fin 5000, Nd145 = Fin 400,
      Nd146 = Fin 900, Nd148 = Fin 300, Sm147 = Fin 1000, Sm149 = sm149\<rparr>"


definition example_groups :: "selgroup list" where
  "example_groups =
     [\<lparr>sg_name = ''Baseline_1'', sg_type = Baseline\<rparr>,
      \<lparr>sg_name = ''G_LREE'', sg_type = ReferenceMaterial_t\<rparr>,
      \<lparr>sg_name = ''Sample_A'', sg_type = Sample_t\<rparr>]"

text \<open>
  A host with two reference-material groups, two samples, splines that succeed and an
  extraction that returns the whole series.
\<close>

definition example_host :: host where
  "example_host =
     \<lparr>drs_settings = default_settings, rmNames = [''JNdi'', ''G_LREE''],
      inputChannels = [''Nd143'', ''Nd144'', ''Nd145'', ''Nd146'', ''Nd148'', ''Sm147'', ''Sm149''],
      samples = [sample_of (Fin 1) (Fin 920), sample_of (Fin 1) (Fin 920)],
      createSpline = (\<lambda>rm nm. None),
      spline = (\<lambda>rm nm. Inr [Fin 2, Fin 2]),
      referenceMaterialData = (\<lambda>rm key. Inr (Fin 0.512)),
      selectionGroupList = example_groups,
      dataForSelection = (\<lambda>ts sel. Inr ts)\<rparr>"

text \<open>The same host with a configured name that no group carries.\<close>

definition renamed_host :: host where
  "renamed_host = example_host\<lparr>drs_settings := default_settings\<lparr>ReferenceMaterial := ''BHVO''\<rparr>\<rparr>"

definition no_fallback_host :: host where
  "no_fallback_host = renamed_host\<lparr>rmNames := [''JNdi'', ''BCR'']\<rparr>"

definition no_rm_host :: host where
  "no_rm_host = example_host\<lparr>rmNames := []\<rparr>"

text \<open>A store whose standardized series share one valid pair of samples.\<close>

definition example_store :: "string \<Rightarrow> series option" where
  "example_store =
     [''StdCorr_147Sm_144'' \<mapsto> [Fin 2, NaN], ''StdCorr_143Nd_144'' \<mapsto> [Fin 3, Fin 1]]"

text \<open>
  A host on which the engine computes in rationals: the settings make both fractionation
  factors zero at every sample and remove the Sm interference, so the corrected and the
  standardized ratios are the count rates themselves: 1, 10 and 100.
\<close>

definition unit_settings :: settings where
  "unit_settings =
     \<lparr>IndexChannel = ''Nd146'', MaskChannel = ''Nd146'', ReferenceMaterial = ''G_LREE'',
      MaskCutoff = Fin 0.1, MaskTrim = Fin 0, NdTrue = Fin 1, Sm147_149 = Fin 1,
      Sm144_149 = Fin 0, Sm148_149 = Fin 0, PropagateError = False\<rparr>"

definition unit_sample :: "real \<Rightarrow> sample" where
  "unit_sample x =
     \<lparr>time_s = Fin 0, mask_s = Fin 1, Nd143 = Fin x, Nd144 = Fin 1, Nd145 = Fin 1,
      Nd146 = Fin 1, Nd148 = Fin 1, Sm147 = Fin x, Sm149 = Fin 1\<rparr>"

definition unit_host :: host where
  "unit_host =
     \<lparr>drs_settings = unit_settings, rmNames = [''G_LREE''], inputChannels = [],
      samples = [unit_sample 1, unit_sample 10, unit_sample 100],
      createSpline = (\<lambda>rm nm. None),
      spline = (\<lambda>rm nm. Inr [Fin 1, Fin 1, Fin 1]),
      referenceMaterialData = (\<lambda>rm key. Inr (Fin 1)),
      selectionGroupList =
        [\<lparr>sg_name = ''Baseline_1'', sg_type = Baseline\<rparr>,
         \<lparr>sg_name = ''Sample_A'', sg_type = Sample_t\<rparr>],
      dataForSelection = (\<lambda>ts sel. Inr ts)\<rparr>"

text \<open>The same host when the spline of \<open>Nd143_144_Corr\<close> cannot be built.\<close>

definition spline_failing_host :: host where
  "spline_failing_host =
     unit_host\<lparr>createSpline :=
       (\<lambda>rm nm. if nm = ''Nd143_144_Corr'' then Some (Exn ''no spline'') else None)\<rparr>"

text \<open>The example host when no selection's data can be extracted.\<close>

definition no_data_host :: host where
  "no_data_host = example_host\<lparr>dataForSelection := (\<lambda>ts sel. Inl (Exn ''no data''))\<rparr>"

text \<open>A value near the top of the double range: \<open>100 * big\<close> is \<open>1e308\<close>.\<close>

definition big :: real where
  "big = 10 ^ 306"

section \<open>Special values of the arithmetic\<close>

lemma fmul_NaN_right [simp]: "fmul x NaN = NaN" by (cases x) auto
lemma fdiv_NaN_right [simp]: "fdiv x NaN = NaN" by (cases x) auto
lemma fadd_NaN_right [simp]: "fadd x NaN = NaN" by (cases x) auto
lemma fsub_NaN_left [simp]: "fsub NaN x = NaN" by (simp add: fsub_def)
lemma fsub_NaN_right [simp]: "fsub x NaN = NaN" by (simp add: fsub_def)

lemma fmul_zero_cases: "fmul x (Fin 0) = Fin 0 \<or> fmul x (Fin 0) = NaN"
  by (cases x) auto









section \<open>Observations distribute over the parts of a run\<close>

lemma created_append [simp]: "created (a @ b) = created a @ created b"
  by (induction a rule: created.induct) simp_all

lemma settings_written_append [simp]:
  "settings_written (a @ b) = settings_written a @ settings_written b"
  by (induction a rule: settings_written.induct) simp_all

lemma splines_requested_append [simp]:
  "splines_requested (a @ b) = splines_requested a @ splines_requested b"
  by (induction a rule: splines_requested.induct) simp_all

lemma propagated_append [simp]: "propagated (a @ b) = propagated a @ propagated b"
  by (induction a rule: propagated.induct) simp_all

lemma writes_to_append [simp]: "writes_to n (a @ b) = writes_to n a @ writes_to n b"
  by (induction n a rule: writes_to.induct) simp_all

lemma is_messageE: "is_message e \<Longrightarrow> (\<And>m. e = Message m \<Longrightarrow> P) \<Longrightarrow> P"
  by (cases e) auto

lemma messages_only:
  assumes "list_all is_message es"
  shows "created es = []" "settings_written es = []" "splines_requested es = []"
    "propagated es = []" "writes_to n es = []"
  using assms by (induction es; auto elim: is_messageE)+

lemma baseline_only [simp]:
  "created (map BaselineSubtract cs) = []" "settings_written (map BaselineSubtract cs) = []"
  "splines_requested (map BaselineSubtract cs) = []" "propagated (map BaselineSubtract cs) = []"
  "writes_to n (map BaselineSubtract cs) = []"
  by (induction cs) simp_all

lemma prepare_obs [simp]:
  "created (prepare h) = []" "settings_written (prepare h) = []"
  "splines_requested (prepare h) = []" "propagated (prepare h) = []"
  "writes_to n (prepare h) = []"
  by (simp_all add: prepare_def)

lemma std_block_obs [simp]:
  "created (snd (std_block h r nm key raw)) = []"
  "settings_written (snd (std_block h r nm key raw)) = []"
  "splines_requested (snd (std_block h r nm key raw)) = [(r, nm)]"
  "propagated (snd (std_block h r nm key raw)) = []"
  "writes_to n (snd (std_block h r nm key raw)) = []"
  by (simp_all add: std_block_def split: sum.splits exn.splits)

lemma rho_corr_messages: "list_all is_message (snd (rho_corr_147Sm_143Nd h st sel))"
  by (simp add: rho_corr_147Sm_143Nd_def split: sum.splits exn.splits)

lemma first_rho_messages: "list_all is_message (snd (first_rho h st gs))"
proof (induction gs)
  case Nil
  show ?case by simp
next
  case (Cons g gs)
  show ?case
    using Cons rho_corr_messages [of h st g]
    by (auto split: prod.splits)
qed

lemma rho_series_obs [simp]:
  "created (rho_series h tr) = created tr @ [''rho'']"
  "settings_written (rho_series h tr) = settings_written tr"
  "splines_requested (rho_series h tr) = splines_requested tr"
  "propagated (rho_series h tr) = propagated tr"
  using first_rho_messages
    [of h "store_of (tr @ [CreateTimeSeries ''rho'' (replicate (length (samples h)) NaN)])"
      "selectionGroupList h"]
  by (auto simp add: rho_series_def Let_def messages_only split: prod.splits)

section \<open>The shape of a run\<close>

lemma resolve_rm_None [simp]: "resolve_rm rm names = None \<longleftrightarrow> names = []"
  by (auto simp: resolve_rm_def)

lemma resolve_rm_Nil [simp]: "resolve_rm rm [] = None"
  by (simp add: resolve_rm_def)

lemma outputs_v49_obs [simp]:
  "created (outputs_v49 h r) =
     [''Nd143_144_Corr'', ''Sm147_Nd144_Corr'', ''StdCorr_147Sm_144'', ''StdCorr_143Nd_144'',
      ''Nd145_144_Corr'', ''Nd148_144_Corr'', ''NdFract'', ''SmFract'', ''TotalNd'']"
  "settings_written (outputs_v49 h r) =
     (if ReferenceMaterial (drs_settings h) \<notin> set (rmNames h)
      then [(''ReferenceMaterial'', r)] else [])"
  "splines_requested (outputs_v49 h r) = [(r, ''Nd143_144_Corr''), (r, ''Sm147_Nd144_Corr'')]"
  "propagated (outputs_v49 h r) = []"
  by (simp_all add: outputs_v49_def Let_def)

lemma outputs_v48_obs [simp]:
  "created (outputs_v48 h r) =
     [''Nd143_144_Corr'', ''Sm147_Nd144_Corr'', ''StdCorr_147Sm_144'', ''StdCorr_143Nd_144'',
      ''Nd143_144_Corr'', ''Nd145_144_Corr'', ''Nd148_144_Corr'', ''NdFract'', ''SmFract'',
      ''TotalNd'']"
  "settings_written (outputs_v48 h r) =
     (if ReferenceMaterial (drs_settings h) \<notin> set (rmNames h)
      then [(''ReferenceMaterial'', r)] else [])"
  "splines_requested (outputs_v48 h r) = [(r, ''Nd143_144_Corr''), (r, ''Sm147_Nd144_Corr'')]"
  "propagated (outputs_v48 h r) =
     (if PropagateError (drs_settings h)
      then [(filter (\<lambda>g. sg_type g \<noteq> Baseline) (selectionGroupList h),
             [''StdCorr_143Nd_144''], ''Nd143_144_Corr'', r),
            (filter (\<lambda>g. sg_type g \<noteq> Baseline) (selectionGroupList h),
             [''StdCorr_147Sm_144''], ''Sm147_Nd144_Corr'', r)]
      else [])"
  by (simp_all add: outputs_v48_def Let_def)

lemma start_obs [simp]:
  "created start_v49 = []" "settings_written start_v49 = []" "splines_requested start_v49 = []"
  "propagated start_v49 = []" "writes_to n start_v49 = []"
  "created start_v48 = []" "settings_written start_v48 = []" "splines_requested start_v48 = []"
  "propagated start_v48 = []" "writes_to n start_v48 = []"
  by (simp_all add: start_v49_def start_v48_def)

section \<open>The writes of a run\<close>

lemma written_append [simp]: "written (a @ b) = written a @ written b"
  by (induction a rule: written.induct) simp_all

lemma written_messages: "list_all is_message es \<Longrightarrow> written es = []"
  by (induction es) (auto elim: is_messageE)

lemma written_baseline [simp]: "written (map BaselineSubtract cs) = []"
  by (induction cs) simp_all

lemma written_parts [simp]:
  "written (prepare h) = []"
  "written (snd (std_block h r nm key raw)) = []"
  "written start_v49 = []" "written start_v48 = []"
  by (simp_all add: prepare_def std_block_def start_v49_def start_v48_def
      split: sum.splits exn.splits)

text \<open>The value the scan of a run leaves in \<open>first_rho_val\<close>.\<close>

lemma rho_series_writes:
  "\<exists>v. written (rho_series h tr) = written tr @ ''rho'' # (if isnan v then [] else [''rho''])
     \<and> writes_to ''rho'' (rho_series h tr) =
         writes_to ''rho'' tr
         @ CreateTimeSeries ''rho'' (replicate (length (samples h)) NaN)
         # (if isnan v then [] else [SetData ''rho'' (replicate (length (samples h)) v)])"
proof -
  let ?st = "store_of (tr @ [CreateTimeSeries ''rho'' (replicate (length (samples h)) NaN)])"
  obtain v ms where f: "first_rho h ?st (selectionGroupList h) = (v, ms)"
    by (cases "first_rho h ?st (selectionGroupList h)")
  have m: "list_all is_message ms"
    using first_rho_messages [of h ?st "selectionGroupList h"] f by simp
  have "written (rho_series h tr) = written tr @ ''rho'' # (if isnan v then [] else [''rho''])"
    using f m by (simp add: rho_series_def Let_def written_messages)
  moreover have "writes_to ''rho'' (rho_series h tr) =
         writes_to ''rho'' tr
         @ CreateTimeSeries ''rho'' (replicate (length (samples h)) NaN)
         # (if isnan v then [] else [SetData ''rho'' (replicate (length (samples h)) v)])"
    using f m by (simp add: rho_series_def Let_def messages_only)
  ultimately show ?thesis by blast
qed

lemma written_outputs_v49:
  "written (outputs_v49 h r) =
     [''Nd143_144_Corr'', ''Sm147_Nd144_Corr'', ''StdCorr_147Sm_144'', ''StdCorr_143Nd_144'',
      ''Nd145_144_Corr'', ''Nd148_144_Corr'', ''NdFract'', ''SmFract'', ''TotalNd'']"
  by (simp add: outputs_v49_def Let_def)

lemma written_outputs_v48:
  "written (outputs_v48 h r) =
     [''Nd143_144_Corr'', ''Sm147_Nd144_Corr'', ''StdCorr_147Sm_144'', ''StdCorr_143Nd_144'',
      ''Nd143_144_Corr'', ''Nd145_144_Corr'', ''Nd148_144_Corr'', ''NdFract'', ''SmFract'',
      ''TotalNd'']"
  by (simp add: outputs_v48_def Let_def)

lemma rho_not_in_outputs:
  "writes_to ''rho'' (outputs_v49 h r) = []" "writes_to ''rho'' (outputs_v48 h r) = []"
  by (simp_all add: outputs_v49_def outputs_v48_def Let_def)

lemma Nd143_writes_v48:
  "writes_to ''Nd143_144_Corr'' (outputs_v48 h r) =
     [CreateTimeSeries ''Nd143_144_Corr'' (map (Nd143_144_Corr (drs_settings h)) (samples h)),
      CreateTimeSeries ''Nd143_144_Corr'' (map (Nd143_144_Corr (drs_settings h)) (samples h))]"
  by (simp add: outputs_v48_def Let_def)


lemma written_runDRS_v49:
  "\<exists>v. written (runDRS_v49 h) =
     (if rmNames h = [] then []
      else [''Nd143_144_Corr'', ''Sm147_Nd144_Corr'', ''StdCorr_147Sm_144'',
            ''StdCorr_143Nd_144'', ''Nd145_144_Corr'', ''Nd148_144_Corr'', ''NdFract'',
            ''SmFract'', ''TotalNd'', ''rho''] @ (if isnan v then [] else [''rho'']))
   \<and> writes_to ''rho'' (runDRS_v49 h) =
     (if rmNames h = [] then []
      else CreateTimeSeries ''rho'' (replicate (length (samples h)) NaN)
           # (if isnan v then [] else [SetData ''rho'' (replicate (length (samples h)) v)]))"
proof (cases "resolve_rm (ReferenceMaterial (drs_settings h)) (rmNames h)")
  case None
  then show ?thesis by (simp add: runDRS_v49_def)
next
  case (Some r)
  then have ne: "rmNames h \<noteq> []" by (auto simp: resolve_rm_def split: if_splits)
  from rho_series_writes [of h "start_v49 @ outputs_v49 h r"]
  show ?thesis using Some ne
    by (simp add: runDRS_v49_def written_outputs_v49 rho_not_in_outputs)
qed

lemma written_runDRS_v48:
  "\<exists>v. written (runDRS_v48 h) =
     (if rmNames h = [] then []
      else [''Nd143_144_Corr'', ''Sm147_Nd144_Corr'', ''StdCorr_147Sm_144'',
            ''StdCorr_143Nd_144'', ''Nd143_144_Corr'', ''Nd145_144_Corr'', ''Nd148_144_Corr'',
            ''NdFract'', ''SmFract'', ''TotalNd'', ''rho''] @ (if isnan v then [] else [''rho'']))
   \<and> writes_to ''rho'' (runDRS_v48 h) =
     (if rmNames h = [] then []
      else CreateTimeSeries ''rho'' (replicate (length (samples h)) NaN)
           # (if isnan v then [] else [SetData ''rho'' (replicate (length (samples h)) v)]))"
proof (cases "resolve_rm (ReferenceMaterial (drs_settings h)) (rmNames h)")
  case None
  then show ?thesis by (simp add: runDRS_v48_def)
next
  case (Some r)
  then have ne: "rmNames h \<noteq> []" by (auto simp: resolve_rm_def split: if_splits)
  from rho_series_writes [of h "start_v48 @ outputs_v48 h r"]
  show ?thesis using Some ne
    by (simp add: runDRS_v48_def written_outputs_v48 rho_not_in_outputs)
qed

lemma Nd143_writes_runDRS_v48:
  "writes_to ''Nd143_144_Corr'' (runDRS_v48 h) =
     (if rmNames h = [] then []
      else [CreateTimeSeries ''Nd143_144_Corr''
              (map (Nd143_144_Corr (drs_settings h)) (samples h)),
            CreateTimeSeries ''Nd143_144_Corr''
              (map (Nd143_144_Corr (drs_settings h)) (samples h))])"
proof (cases "resolve_rm (ReferenceMaterial (drs_settings h)) (rmNames h)")
  case None
  then show ?thesis by (simp add: runDRS_v48_def)
next
  case (Some r)
  then have ne: "rmNames h \<noteq> []" by (auto simp: resolve_rm_def split: if_splits)
  have "writes_to ''Nd143_144_Corr'' (rho_series h (start_v48 @ outputs_v48 h r))
        = writes_to ''Nd143_144_Corr'' (outputs_v48 h r)"
    using first_rho_messages
      [of h "store_of ((start_v48 @ outputs_v48 h r)
               @ [CreateTimeSeries ''rho'' (replicate (length (samples h)) NaN)])"
        "selectionGroupList h"]
    by (auto simp add: rho_series_def Let_def messages_only split: prod.splits)
  then show ?thesis using Some ne by (simp add: runDRS_v48_def Nd143_writes_v48)
qed

section \<open>The rho diagnostic on aligned arrays\<close>

lemma valid_mask_same_length:
  "length sm = length nd \<Longrightarrow>
   valid_mask sm nd = Inr (map (\<lambda>(a, b). \<not> isnan a \<and> \<not> isnan b \<and> fgt0 a \<and> fgt0 b) (zip sm nd))"
  by (induction sm nd rule: list_induct2) (auto simp: valid_mask_def broadcast2_def)

lemma bool_index_fst:
  "length sm = length nd \<Longrightarrow>
   bool_index sm (map P (zip sm nd)) = Inr (map fst (filter P (zip sm nd)))"
  by (induction sm nd rule: list_induct2) (auto simp: bool_index_def)

lemma bool_index_snd:
  "length sm = length nd \<Longrightarrow>
   bool_index nd (map P (zip sm nd)) = Inr (map snd (filter P (zip sm nd)))"
  by (induction sm nd rule: list_induct2) (auto simp: bool_index_def)

lemma list_ex_map_filter: "list_ex (\<lambda>b. b) (map P xs) \<longleftrightarrow> filter P xs \<noteq> []"
  by (induction xs) auto

lemma rho_of_arrays_same_length:
  assumes "length sm = length nd"
  shows "rho_of_arrays sm nd =
     Inr (if valid_pairs sm nd = [] then NaN
          else corrcoef01 (map flog10 (map fst (valid_pairs sm nd)))
                 (map flog10 (map snd (valid_pairs sm nd))))"
  using assms
  by (simp add: rho_of_arrays_def valid_mask_same_length bool_index_fst bool_index_snd
      list_ex_map_filter valid_pairs_def)


lemma rho_of_arrays_mismatch:
  "length sm \<noteq> length nd \<Longrightarrow>
   rho_of_arrays sm nd = Inr NaN \<or> (\<exists>e. rho_of_arrays sm nd = Inl e)"
  by (auto simp: rho_of_arrays_def bool_index_def split: sum.splits if_splits)

lemma fmul_zero_left_cases: "fmul (Fin 0) z = Fin 0 \<or> fmul (Fin 0) z = NaN"
  by (cases z) auto

lemma fsub_self_cases: "fsub x x = Fin 0 \<or> fsub x x = NaN"
  by (cases x) (auto simp: fsub_def)

lemma fsum_single: "fsum [x] = fadd (Fin 0) x"
  by (simp add: fsum_def)

lemma fadd_zero_left [simp]: "fadd (Fin 0) x = x"
  by (cases x) auto

lemma fdiv_one [simp]: "fdiv x (Fin 1) = x"
  by (cases x) (auto simp: inf_of_def)

lemma fmul_PInf_zero_or_NaN: "z = Fin 0 \<or> z = NaN \<Longrightarrow> fmul z PInf = NaN"
  by auto

lemma corrcoef01_single: "corrcoef01 [x] [y] = NaN"
proof -
  have a: "fsub x x = Fin 0 \<or> fsub x x = NaN" by (rule fsub_self_cases)
  have "fmul (fsub x x) (fsub y y) = Fin 0 \<or> fmul (fsub x x) (fsub y y) = NaN"
    using a fmul_zero_left_cases [of "fsub y y"] by auto
  then have "fmul (fmul (fsub x x) (fsub y y)) PInf = NaN"
    by (rule fmul_PInf_zero_or_NaN)
  then show ?thesis
    by (simp add: corrcoef01_def fsum_single fdot_def Let_def inf_of_def)
qed

lemma rho_corr_Inl:
  "rho_try h st sel = Inl (Exn e) \<Longrightarrow>
   rho_corr_147Sm_143Nd h st sel =
     (NaN, [Message (''[rho_corr_147Sm_143Nd] Error in selection '' @ sg_name sel @ '': '' @ e)])"
  by (simp add: rho_corr_147Sm_143Nd_def)

lemma rho_try_extracted:
  "timeSeries st ''StdCorr_147Sm_144'' = Inr ts147 \<Longrightarrow> dataForSelection h ts147 sel = Inr sm \<Longrightarrow>
   timeSeries st ''StdCorr_143Nd_144'' = Inr ts143 \<Longrightarrow> dataForSelection h ts143 sel = Inr nd \<Longrightarrow>
   rho_try h st sel = rho_of_arrays sm nd"
  by (simp add: rho_try_def)

lemma few_valid_pairs:
  assumes "length sm = length nd" "length (valid_pairs sm nd) < 2"
  shows "rho_of_arrays sm nd = Inr NaN"
proof (cases "valid_pairs sm nd")
  case Nil
  then show ?thesis using assms(1) by (simp add: rho_of_arrays_same_length)
next
  case (Cons p ps)
  then have "ps = []" using assms(2) by simp
  then show ?thesis using Cons assms(1)
    by (simp add: rho_of_arrays_same_length corrcoef01_single)
qed

section \<open>The store and the scan for the flat rho series\<close>

lemma isnan_iff: "isnan v \<longleftrightarrow> v = NaN"
  by (cases v) auto

lemma store_of_append: "store_of (a @ b) = foldl apply_event (store_of a) b"
  by (simp add: store_of_def)

lemma apply_messages: "list_all is_message ms \<Longrightarrow> foldl apply_event st ms = st"
  by (induction ms arbitrary: st) (auto elim: is_messageE)

lemma apply_baseline [simp]: "foldl apply_event st (map BaselineSubtract cs) = st"
  by (induction cs arbitrary: st) simp_all

lemma apply_prepare [simp]: "foldl apply_event st (prepare h) = st"
  by (simp add: prepare_def)

lemma apply_std_block [simp]: "foldl apply_event st (snd (std_block h r nm key raw)) = st"
  by (simp add: std_block_def split: sum.splits exn.splits)

lemma rho_try_cong:
  assumes "st1 ''StdCorr_147Sm_144'' = st2 ''StdCorr_147Sm_144''"
    and "st1 ''StdCorr_143Nd_144'' = st2 ''StdCorr_143Nd_144''"
  shows "rho_try h st1 sel = rho_try h st2 sel"
proof -
  have a: "timeSeries st1 ''StdCorr_147Sm_144'' = timeSeries st2 ''StdCorr_147Sm_144''"
    using assms(1) by (simp add: timeSeries_def)
  have b: "timeSeries st1 ''StdCorr_143Nd_144'' = timeSeries st2 ''StdCorr_143Nd_144''"
    using assms(2) by (simp add: timeSeries_def)
  show ?thesis unfolding rho_try_def a b by (rule refl)
qed

lemma rho_corr_cong:
  "st1 ''StdCorr_147Sm_144'' = st2 ''StdCorr_147Sm_144'' \<Longrightarrow>
   st1 ''StdCorr_143Nd_144'' = st2 ''StdCorr_143Nd_144'' \<Longrightarrow>
   rho_corr_147Sm_143Nd h st1 sel = rho_corr_147Sm_143Nd h st2 sel"
  by (simp add: rho_corr_147Sm_143Nd_def rho_try_cong [of st1 st2])

lemma first_rho_cong:
  assumes "st1 ''StdCorr_147Sm_144'' = st2 ''StdCorr_147Sm_144''"
    and "st1 ''StdCorr_143Nd_144'' = st2 ''StdCorr_143Nd_144''"
  shows "first_rho h st1 gs = first_rho h st2 gs"
proof (induction gs)
  case Nil
  show ?case by simp
next
  case (Cons g gs)
  have "rho_corr_147Sm_143Nd h st1 g = rho_corr_147Sm_143Nd h st2 g"
    using assms by (rule rho_corr_cong)
  then show ?case using Cons by (auto split: prod.splits)
qed

lemma first_rho_all_NaN:
  "(\<forall>g \<in> set gs. sg_type g \<noteq> Baseline \<longrightarrow> isnan (fst (rho_corr_147Sm_143Nd h st g))) \<Longrightarrow>
   fst (first_rho h st gs) = NaN"
  by (induction gs) (auto split: prod.splits)

lemma first_rho_skip:
  "(\<forall>p \<in> set pre. sg_type p \<noteq> Baseline \<longrightarrow> isnan (fst (rho_corr_147Sm_143Nd h st p))) \<Longrightarrow>
   first_rho h st (pre @ gs) =
     (fst (first_rho h st gs), snd (first_rho h st pre) @ snd (first_rho h st gs))"
  by (induction pre) (auto split: prod.splits)

lemma first_rho_hit:
  "sg_type g \<noteq> Baseline \<Longrightarrow> \<not> isnan (fst (rho_corr_147Sm_143Nd h st g)) \<Longrightarrow>
   first_rho h st (g # post) = rho_corr_147Sm_143Nd h st g"
  by (auto split: prod.splits)

lemma first_rho_first_success:
  assumes "\<forall>p \<in> set pre. sg_type p \<noteq> Baseline \<longrightarrow> isnan (fst (rho_corr_147Sm_143Nd h st p))"
    and "sg_type g \<noteq> Baseline" and "\<not> isnan (fst (rho_corr_147Sm_143Nd h st g))"
  shows "fst (first_rho h st (pre @ g # post)) = fst (rho_corr_147Sm_143Nd h st g)"
    and "first_rho h st (pre @ g # post) = first_rho h st (pre @ [g])"
proof -
  have a: "first_rho h st (g # post) = rho_corr_147Sm_143Nd h st g"
    using assms(2,3) by (rule first_rho_hit)
  have b: "first_rho h st [g] = rho_corr_147Sm_143Nd h st g"
    using assms(2,3) by (rule first_rho_hit)
  have c: "first_rho h st (pre @ g # post) =
     (fst (first_rho h st (g # post)), snd (first_rho h st pre) @ snd (first_rho h st (g # post)))"
    using assms(1) by (rule first_rho_skip)
  have d: "first_rho h st (pre @ [g]) =
     (fst (first_rho h st [g]), snd (first_rho h st pre) @ snd (first_rho h st [g]))"
    using assms(1) by (rule first_rho_skip)
  show "fst (first_rho h st (pre @ g # post)) = fst (rho_corr_147Sm_143Nd h st g)"
    unfolding c a by simp
  show "first_rho h st (pre @ g # post) = first_rho h st (pre @ [g])"
    unfolding c d a b by (rule refl)
qed

lemma rho_series_unfold:
  assumes "first_rho h (store_of (tr @ [CreateTimeSeries ''rho'' (replicate (length (samples h)) NaN)]))
             (selectionGroupList h) = (v, ms)"
  shows "rho_series h tr =
     tr @ [CreateTimeSeries ''rho'' (replicate (length (samples h)) NaN)] @ ms
     @ (if isnan v then [] else [SetData ''rho'' (replicate (length (samples h)) v)])
     @ [Progress 100, Message ''Finished!'', Finished]"
  using assms by (simp add: rho_series_def Let_def)

lemma rho_series_store_other:
  assumes "k \<noteq> ''rho''"
  shows "store_of (rho_series h tr) k = store_of tr k"
proof -
  let ?st = "store_of (tr @ [CreateTimeSeries ''rho'' (replicate (length (samples h)) NaN)])"
  obtain v ms where f: "first_rho h ?st (selectionGroupList h) = (v, ms)"
    by (cases "first_rho h ?st (selectionGroupList h)")
  have m: "list_all is_message ms"
    using first_rho_messages [of h ?st "selectionGroupList h"] f by simp
  show ?thesis
    unfolding rho_series_unfold [OF f]
    using assms m by (simp add: store_of_append apply_messages)
qed

lemma scan_store_other:
  assumes "k \<noteq> ''rho''"
  shows "store_of (tr @ [CreateTimeSeries ''rho'' x]) k = store_of tr k"
  using assms by (simp add: store_of_append)

lemma rho_series_scan:
  "first_rho h (store_of (tr @ [CreateTimeSeries ''rho'' x])) gs
   = first_rho h (store_of (rho_series h tr)) gs"
  by (rule first_rho_cong) (simp_all add: rho_series_store_other scan_store_other)

lemma rho_series_flat:
  assumes "v = fst (first_rho h (store_of (rho_series h tr)) (selectionGroupList h))"
  shows "writes_to ''rho'' (rho_series h tr) =
           writes_to ''rho'' tr
           @ CreateTimeSeries ''rho'' (replicate (length (samples h)) NaN)
           # (if isnan v then [] else [SetData ''rho'' (replicate (length (samples h)) v)])"
    and "store_of (rho_series h tr) ''rho'' = Some (replicate (length (samples h)) v)"
proof -
  let ?st = "store_of (tr @ [CreateTimeSeries ''rho'' (replicate (length (samples h)) NaN)])"
  obtain w ms where f: "first_rho h ?st (selectionGroupList h) = (w, ms)"
    by (cases "first_rho h ?st (selectionGroupList h)")
  have m: "list_all is_message ms"
    using first_rho_messages [of h ?st "selectionGroupList h"] f by simp
  have "w = v"
    using f assms rho_series_scan [of h tr "replicate (length (samples h)) NaN" "selectionGroupList h"]
    by simp
  then have f': "first_rho h ?st (selectionGroupList h) = (v, ms)" using f by simp
  show "writes_to ''rho'' (rho_series h tr) =
           writes_to ''rho'' tr
           @ CreateTimeSeries ''rho'' (replicate (length (samples h)) NaN)
           # (if isnan v then [] else [SetData ''rho'' (replicate (length (samples h)) v)])"
    unfolding rho_series_unfold [OF f'] using m by (simp add: messages_only)
  show "store_of (rho_series h tr) ''rho'' = Some (replicate (length (samples h)) v)"
    unfolding rho_series_unfold [OF f'] using m
    by (auto simp add: store_of_append apply_messages isnan_iff)
qed

section \<open>The engine on the rational example\<close>

lemma unit_Sm147: "0 < x \<Longrightarrow> Sm147_Nd144_Corr unit_settings (unit_sample x) = Fin x"
  by (simp add: Sm147_Nd144_Corr_def Nd144c_safe_def Nd144c_def Sm144_def SmFract_def
      Sm147_149_meas_def fne0_def fsub_def unit_settings_def unit_sample_def)

lemma unit_Nd143: "0 < x \<Longrightarrow> Nd143_144_Corr unit_settings (unit_sample x) = Fin x"
  by (simp add: Nd143_144_Corr_def NdFract_def Nd146_144_meas_def Nd144c_safe_def Nd144c_def
      Sm144_def SmFract_def Sm147_149_meas_def fne0_def fsub_def unit_settings_def unit_sample_def)

lemma log10_100: "log 10 100 = (2::real)"
proof -
  have "log 10 (10 * 10 :: real) = log 10 10 + log 10 10"
    by (rule log_mult_pos) simp_all
  then show ?thesis by simp
qed

lemma rho_unit_arrays:
  "rho_of_arrays [Fin 1, Fin 10, Fin 100] [Fin 1, Fin 10, Fin 100] = Inr (Fin 1)"
  by (simp add: rho_of_arrays_same_length valid_pairs_def corrcoef01_def fsum_def fdot_def
      fsub_def Let_def log10_100)

section \<open>The standardized series in the store\<close>

lemma store_outputs_v49:
  "store_of (start_v49 @ outputs_v49 h r) ''StdCorr_147Sm_144'' =
     Some (fst (std_block h r ''Sm147_Nd144_Corr'' ''147Sm/144Nd''
                 (map (Sm147_Nd144_Corr (drs_settings h)) (samples h))))"
  "store_of (start_v49 @ outputs_v49 h r) ''StdCorr_143Nd_144'' =
     Some (fst (std_block h r ''Nd143_144_Corr'' ''143Nd/144Nd''
                 (map (Nd143_144_Corr (drs_settings h)) (samples h))))"
  by (simp_all add: store_of_append outputs_v49_def start_v49_def Let_def store_of_def)

lemma store_outputs_v48:
  "store_of (start_v48 @ outputs_v48 h r) ''StdCorr_147Sm_144'' =
     Some (fst (std_block h r ''Sm147_Nd144_Corr'' ''147Sm/144Nd''
                 (map (Sm147_Nd144_Corr (drs_settings h)) (samples h))))"
  "store_of (start_v48 @ outputs_v48 h r) ''StdCorr_143Nd_144'' =
     Some (fst (std_block h r ''Nd143_144_Corr'' ''143Nd/144Nd''
                 (map (Nd143_144_Corr (drs_settings h)) (samples h))))"
  by (simp_all add: store_of_append outputs_v48_def start_v48_def Let_def store_of_def)


lemma run_store_std:
  assumes "run = runDRS_v48 \<or> run = runDRS_v49"
    and "resolve_rm (ReferenceMaterial (drs_settings h)) (rmNames h) = Some r"
  shows "store_of (run h) ''StdCorr_147Sm_144'' =
     Some (fst (std_block h r ''Sm147_Nd144_Corr'' ''147Sm/144Nd''
                 (map (Sm147_Nd144_Corr (drs_settings h)) (samples h))))"
    and "store_of (run h) ''StdCorr_143Nd_144'' =
     Some (fst (std_block h r ''Nd143_144_Corr'' ''143Nd/144Nd''
                 (map (Nd143_144_Corr (drs_settings h)) (samples h))))"
  using assms
  by (auto simp add: runDRS_v48_def runDRS_v49_def rho_series_store_other
      store_outputs_v48 store_outputs_v49)

lemma unit_raw:
  "map (Nd143_144_Corr (drs_settings unit_host)) (samples unit_host) = [Fin 1, Fin 10, Fin 100]"
  "map (Sm147_Nd144_Corr (drs_settings unit_host)) (samples unit_host) = [Fin 1, Fin 10, Fin 100]"
  "map (Nd143_144_Corr (drs_settings spline_failing_host)) (samples spline_failing_host)
     = [Fin 1, Fin 10, Fin 100]"
  "map (Sm147_Nd144_Corr (drs_settings spline_failing_host)) (samples spline_failing_host)
     = [Fin 1, Fin 10, Fin 100]"
  by (simp_all add: unit_host_def spline_failing_host_def unit_Nd143 unit_Sm147)

lemma unit_resolve:
  "resolve_rm (ReferenceMaterial (drs_settings unit_host)) (rmNames unit_host) = Some ''G_LREE''"
  "resolve_rm (ReferenceMaterial (drs_settings spline_failing_host)) (rmNames spline_failing_host)
     = Some ''G_LREE''"
  by (simp_all add: unit_host_def spline_failing_host_def unit_settings_def resolve_rm_def)

lemma unit_std_block:
  "std_block unit_host ''G_LREE'' nm key [Fin 1, Fin 10, Fin 100]
     = ([Fin 1, Fin 10, Fin 100], [CreateSpline ''G_LREE'' nm])"
  "std_block spline_failing_host ''G_LREE'' ''Sm147_Nd144_Corr'' key [Fin 1, Fin 10, Fin 100]
     = ([Fin 1, Fin 10, Fin 100], [CreateSpline ''G_LREE'' ''Sm147_Nd144_Corr''])"
  "std_block spline_failing_host ''G_LREE'' ''Nd143_144_Corr'' key [Fin 1, Fin 10, Fin 100]
     = ([NaN, NaN, NaN],
        [CreateSpline ''G_LREE'' ''Nd143_144_Corr'',
         Message (''Warning: Standard correction for '' @ key @ '' failed: '' @ ''no spline'')])"
  by (simp_all add: std_block_def std_try_def broadcast2_def fne0_def unit_host_def
      spline_failing_host_def numeral_3_eq_3)

lemma unit_store:
  "store_of (runDRS_v49 unit_host) ''StdCorr_147Sm_144'' = Some [Fin 1, Fin 10, Fin 100]"
  "store_of (runDRS_v49 unit_host) ''StdCorr_143Nd_144'' = Some [Fin 1, Fin 10, Fin 100]"
  "store_of (runDRS_v49 spline_failing_host) ''StdCorr_147Sm_144'' = Some [Fin 1, Fin 10, Fin 100]"
  "store_of (runDRS_v49 spline_failing_host) ''StdCorr_143Nd_144'' = Some [NaN, NaN, NaN]"
  by (simp_all add: run_store_std [OF _ unit_resolve(1)] run_store_std [OF _ unit_resolve(2)]
      unit_raw unit_std_block)

lemma unit_extract:
  "dataForSelection unit_host ts sel = Inr ts"
  "dataForSelection spline_failing_host ts sel = Inr ts"
  by (simp_all add: unit_host_def spline_failing_host_def)

lemma unit_rho:
  "rho_corr_147Sm_143Nd unit_host (store_of (runDRS_v49 unit_host))
     \<lparr>sg_name = ''Sample_A'', sg_type = Sample_t\<rparr> = (Fin 1, [])"
proof -
  have "rho_try unit_host (store_of (runDRS_v49 unit_host))
          \<lparr>sg_name = ''Sample_A'', sg_type = Sample_t\<rparr>
        = rho_of_arrays [Fin 1, Fin 10, Fin 100] [Fin 1, Fin 10, Fin 100]"
    by (rule rho_try_extracted) (simp_all add: timeSeries_def unit_store unit_extract)
  then show ?thesis by (simp add: rho_corr_147Sm_143Nd_def rho_unit_arrays)
qed

lemma failing_rho:
  "rho_corr_147Sm_143Nd spline_failing_host (store_of (runDRS_v49 spline_failing_host))
     \<lparr>sg_name = ''Sample_A'', sg_type = Sample_t\<rparr> = (NaN, [])"
proof -
  have "rho_try spline_failing_host (store_of (runDRS_v49 spline_failing_host))
          \<lparr>sg_name = ''Sample_A'', sg_type = Sample_t\<rparr>
        = rho_of_arrays [Fin 1, Fin 10, Fin 100] [NaN, NaN, NaN]"
    by (rule rho_try_extracted) (simp_all add: timeSeries_def unit_store unit_extract)
  then show ?thesis
    by (simp add: rho_corr_147Sm_143Nd_def rho_of_arrays_same_length valid_pairs_def)
qed

lemma unit_first_rho:
  "fst (first_rho unit_host (store_of (runDRS_v49 unit_host)) (selectionGroupList unit_host))
     = Fin 1"
  "fst (first_rho spline_failing_host (store_of (runDRS_v49 spline_failing_host))
          (selectionGroupList spline_failing_host)) = NaN"
proof -
  have a: "selectionGroupList unit_host =
      [\<lparr>sg_name = ''Baseline_1'', sg_type = Baseline\<rparr>,
       \<lparr>sg_name = ''Sample_A'', sg_type = Sample_t\<rparr>]"
    and b: "selectionGroupList spline_failing_host =
      [\<lparr>sg_name = ''Baseline_1'', sg_type = Baseline\<rparr>,
       \<lparr>sg_name = ''Sample_A'', sg_type = Sample_t\<rparr>]"
    by (simp_all add: unit_host_def spline_failing_host_def)
  show "fst (first_rho unit_host (store_of (runDRS_v49 unit_host)) (selectionGroupList unit_host))
     = Fin 1"
    unfolding a by (simp add: unit_rho)
  show "fst (first_rho spline_failing_host (store_of (runDRS_v49 spline_failing_host))
          (selectionGroupList spline_failing_host)) = NaN"
    unfolding b by (simp add: failing_rho)
qed

lemma unit_run_shape:
  "runDRS_v49 unit_host = rho_series unit_host (start_v49 @ outputs_v49 unit_host ''G_LREE'')"
  "runDRS_v49 spline_failing_host
     = rho_series spline_failing_host (start_v49 @ outputs_v49 spline_failing_host ''G_LREE'')"
  by (simp_all add: runDRS_v49_def unit_resolve)

lemma unit_length:
  "length (samples unit_host) = 3" "length (samples spline_failing_host) = 3"
  by (simp_all add: unit_host_def spline_failing_host_def)

lemma no_data_rho:
  "fst (rho_corr_147Sm_143Nd no_data_host st g) = NaN"
proof -
  have "\<exists>e. rho_try no_data_host st g = Inl e"
    by (simp add: rho_try_def no_data_host_def split: sum.splits)
  then show ?thesis by (auto simp: rho_corr_147Sm_143Nd_def split: exn.splits)
qed

section \<open>What a run publishes whatever the standardization does\<close>

lemma store_engine_v49:
  "store_of (start_v49 @ outputs_v49 h r) ''Nd145_144_Corr''
     = Some (map (Nd145_144_Corr (drs_settings h)) (samples h))"
  "store_of (start_v49 @ outputs_v49 h r) ''Nd148_144_Corr''
     = Some (map (Nd148_144_Corr (drs_settings h)) (samples h))"
  "store_of (start_v49 @ outputs_v49 h r) ''NdFract''
     = Some (map (NdFract (drs_settings h)) (samples h))"
  "store_of (start_v49 @ outputs_v49 h r) ''SmFract''
     = Some (map (SmFract (drs_settings h)) (samples h))"
  "store_of (start_v49 @ outputs_v49 h r) ''TotalNd'' = Some (map TotalNd (samples h))"
  by (simp_all add: store_of_append outputs_v49_def start_v49_def Let_def store_of_def)

lemma store_engine_v48:
  "store_of (start_v48 @ outputs_v48 h r) ''Nd145_144_Corr''
     = Some (map (Nd145_144_Corr (drs_settings h)) (samples h))"
  "store_of (start_v48 @ outputs_v48 h r) ''Nd148_144_Corr''
     = Some (map (Nd148_144_Corr (drs_settings h)) (samples h))"
  "store_of (start_v48 @ outputs_v48 h r) ''NdFract''
     = Some (map (NdFract (drs_settings h)) (samples h))"
  "store_of (start_v48 @ outputs_v48 h r) ''SmFract''
     = Some (map (SmFract (drs_settings h)) (samples h))"
  "store_of (start_v48 @ outputs_v48 h r) ''TotalNd'' = Some (map TotalNd (samples h))"
  by (simp_all add: store_of_append outputs_v48_def start_v48_def Let_def store_of_def)

lemma blocks_in_outputs:
  "set (snd (std_block h r ''Nd143_144_Corr'' ''143Nd/144Nd''
              (map (Nd143_144_Corr (drs_settings h)) (samples h)))) \<subseteq> set (outputs_v49 h r)"
  "set (snd (std_block h r ''Sm147_Nd144_Corr'' ''147Sm/144Nd''
              (map (Sm147_Nd144_Corr (drs_settings h)) (samples h)))) \<subseteq> set (outputs_v49 h r)"
  "set (snd (std_block h r ''Nd143_144_Corr'' ''143Nd/144Nd''
              (map (Nd143_144_Corr (drs_settings h)) (samples h)))) \<subseteq> set (outputs_v48 h r)"
  "set (snd (std_block h r ''Sm147_Nd144_Corr'' ''147Sm/144Nd''
              (map (Sm147_Nd144_Corr (drs_settings h)) (samples h)))) \<subseteq> set (outputs_v48 h r)"
  by (auto simp add: outputs_v49_def outputs_v48_def Let_def)

lemma rho_series_ends:
  "set tr \<subseteq> set (rho_series h tr)" "last (rho_series h tr) = Finished"
proof -
  let ?st = "store_of (tr @ [CreateTimeSeries ''rho'' (replicate (length (samples h)) NaN)])"
  obtain v ms where f: "first_rho h ?st (selectionGroupList h) = (v, ms)"
    by (cases "first_rho h ?st (selectionGroupList h)")
  show "set tr \<subseteq> set (rho_series h tr)" "last (rho_series h tr) = Finished"
    unfolding rho_series_unfold [OF f] by auto
qed

lemma std_block_cong:
  assumes "createSpline h' r nm = createSpline h r nm" and "spline h' r nm = spline h r nm"
    and "referenceMaterialData h' r key = referenceMaterialData h r key"
  shows "std_block h' r nm key raw = std_block h r nm key raw"
  unfolding std_block_def std_try_def assms by (rule refl)

lemma std_block_failed:
  "std_try h r nm key raw = Inl (Exn e) \<Longrightarrow>
   std_block h r nm key raw =
     (replicate (length raw) NaN,
      [CreateSpline r nm,
       Message (''Warning: Standard correction for '' @ key @ '' failed: '' @ e)])"
  by (simp add: std_block_def)


lemma run_store_engine:
  assumes "run = runDRS_v48 \<or> run = runDRS_v49"
    and "resolve_rm (ReferenceMaterial (drs_settings h)) (rmNames h) = Some r"
  shows "store_of (run h) ''Nd145_144_Corr''
           = Some (map (Nd145_144_Corr (drs_settings h)) (samples h))"
    and "store_of (run h) ''Nd148_144_Corr''
           = Some (map (Nd148_144_Corr (drs_settings h)) (samples h))"
    and "store_of (run h) ''NdFract'' = Some (map (NdFract (drs_settings h)) (samples h))"
    and "store_of (run h) ''SmFract'' = Some (map (SmFract (drs_settings h)) (samples h))"
    and "store_of (run h) ''TotalNd'' = Some (map TotalNd (samples h))"
  using assms
  by (auto simp add: runDRS_v48_def runDRS_v49_def rho_series_store_other
      store_engine_v48 store_engine_v49)

lemma after_outputs:
  assumes "set b \<subseteq> set out"
  shows "set b \<subseteq> set (rho_series h (st @ out))"
  using assms rho_series_ends(1) [of "st @ out" h] by auto

lemma run_unfold:
  assumes "resolve_rm (ReferenceMaterial (drs_settings h)) (rmNames h) = Some r"
  shows "runDRS_v48 h = rho_series h (start_v48 @ outputs_v48 h r)"
    and "runDRS_v49 h = rho_series h (start_v49 @ outputs_v49 h r)"
  using assms by (simp_all add: runDRS_v48_def runDRS_v49_def)

lemma run_block143:
  assumes "run = runDRS_v48 \<or> run = runDRS_v49"
    and "resolve_rm (ReferenceMaterial (drs_settings h)) (rmNames h) = Some r"
  shows "set (snd (std_block h r ''Nd143_144_Corr'' ''143Nd/144Nd''
              (map (Nd143_144_Corr (drs_settings h)) (samples h)))) \<subseteq> set (run h)"
  using assms(1)
proof
  assume e: "run = runDRS_v48"
  show ?thesis unfolding e run_unfold(1) [OF assms(2)]
    by (rule after_outputs [OF blocks_in_outputs(3)])
next
  assume e: "run = runDRS_v49"
  show ?thesis unfolding e run_unfold(2) [OF assms(2)]
    by (rule after_outputs [OF blocks_in_outputs(1)])
qed

lemma run_block147:
  assumes "run = runDRS_v48 \<or> run = runDRS_v49"
    and "resolve_rm (ReferenceMaterial (drs_settings h)) (rmNames h) = Some r"
  shows "set (snd (std_block h r ''Sm147_Nd144_Corr'' ''147Sm/144Nd''
              (map (Sm147_Nd144_Corr (drs_settings h)) (samples h)))) \<subseteq> set (run h)"
  using assms(1)
proof
  assume e: "run = runDRS_v48"
  show ?thesis unfolding e run_unfold(1) [OF assms(2)]
    by (rule after_outputs [OF blocks_in_outputs(4)])
next
  assume e: "run = runDRS_v49"
  show ?thesis unfolding e run_unfold(2) [OF assms(2)]
    by (rule after_outputs [OF blocks_in_outputs(2)])
qed

lemma run_finishes:
  assumes "run = runDRS_v48 \<or> run = runDRS_v49"
    and "resolve_rm (ReferenceMaterial (drs_settings h)) (rmNames h) = Some r"
  shows "last (run h) = Finished"
    and "\<exists>v. store_of (run h) ''rho'' = Some (replicate (length (samples h)) v)"
proof -
  show "last (run h) = Finished"
    using assms(1)
  proof
    assume e: "run = runDRS_v48"
    show ?thesis unfolding e run_unfold(1) [OF assms(2)] by (rule rho_series_ends(2))
  next
    assume e: "run = runDRS_v49"
    show ?thesis unfolding e run_unfold(2) [OF assms(2)] by (rule rho_series_ends(2))
  qed
  show "\<exists>v. store_of (run h) ''rho'' = Some (replicate (length (samples h)) v)"
    using assms(1)
  proof
    assume e: "run = runDRS_v48"
    show ?thesis unfolding e run_unfold(1) [OF assms(2)]
      using rho_series_flat(2) [OF refl, of h "start_v48 @ outputs_v48 h r"] by blast
  next
    assume e: "run = runDRS_v49"
    show ?thesis unfolding e run_unfold(2) [OF assms(2)]
      using rho_series_flat(2) [OF refl, of h "start_v49 @ outputs_v49 h r"] by blast
  qed
qed

section \<open>Zero denominators\<close>

lemma broadcast2_same_nth:
  "length xs = length ys \<Longrightarrow> broadcast2 f xs ys = Inr (map2 f xs ys)"
  by (simp add: broadcast2_def)




section \<open>Error propagation\<close>

lemma propagated_runDRS_v48:
  "propagated (runDRS_v48 h) =
     (case resolve_rm (ReferenceMaterial (drs_settings h)) (rmNames h) of
        None \<Rightarrow> []
      | Some r \<Rightarrow>
          if PropagateError (drs_settings h)
          then [(filter (\<lambda>g. sg_type g \<noteq> Baseline) (selectionGroupList h),
                 [''StdCorr_143Nd_144''], ''Nd143_144_Corr'', r),
                (filter (\<lambda>g. sg_type g \<noteq> Baseline) (selectionGroupList h),
                 [''StdCorr_147Sm_144''], ''Sm147_Nd144_Corr'', r)]
          else [])"
  by (simp add: runDRS_v48_def split: option.splits)

lemma propagated_runDRS_v49: "propagated (runDRS_v49 h) = []"
  by (simp add: runDRS_v49_def split: option.splits)

theorem propagation_counterexample:
  "PropagateError (drs_settings no_rm_host) \<and> propagated (runDRS_v48 no_rm_host) = []
   \<and> PropagateError (drs_settings example_host) \<and> propagated (runDRS_v49 example_host) = []"
  by (simp add: propagated_runDRS_v48 propagated_runDRS_v49 no_rm_host_def example_host_def
      default_settings_def)

text \<open>
  C2, amended: in version 4.8, when the propagate-errors setting is on and the reference
  material resolves to \<open>r\<close>, the run calls the propagation routine exactly twice, each
  time with the groups whose type is not Baseline and with \<open>r\<close>: once for
  \<open>StdCorr_143Nd_144\<close> against \<open>Nd143_144_Corr\<close>, once for \<open>StdCorr_147Sm_144\<close> against
  \<open>Sm147_Nd144_Corr\<close>. A run that finds no reference-material group makes no such call,
  and version 4.9 never makes one.
\<close>

theorem error_propagation_calls:
  "(PropagateError (drs_settings h)
      \<and> resolve_rm (ReferenceMaterial (drs_settings h)) (rmNames h) = Some r \<longrightarrow>
      propagated (runDRS_v48 h) =
        [(filter (\<lambda>g. sg_type g \<noteq> Baseline) (selectionGroupList h),
          [''StdCorr_143Nd_144''], ''Nd143_144_Corr'', r),
         (filter (\<lambda>g. sg_type g \<noteq> Baseline) (selectionGroupList h),
          [''StdCorr_147Sm_144''], ''Sm147_Nd144_Corr'', r)])
   \<and> (rmNames h = [] \<longrightarrow> propagated (runDRS_v48 h) = [])
   \<and> propagated (runDRS_v49 h) = []"
  by (simp add: propagated_runDRS_v48 propagated_runDRS_v49)

theorem error_propagation_calls_witness:
  "propagated (runDRS_v48 example_host) =
     [([\<lparr>sg_name = ''G_LREE'', sg_type = ReferenceMaterial_t\<rparr>,
        \<lparr>sg_name = ''Sample_A'', sg_type = Sample_t\<rparr>],
       [''StdCorr_143Nd_144''], ''Nd143_144_Corr'', ''G_LREE''),
      ([\<lparr>sg_name = ''G_LREE'', sg_type = ReferenceMaterial_t\<rparr>,
        \<lparr>sg_name = ''Sample_A'', sg_type = Sample_t\<rparr>],
       [''StdCorr_147Sm_144''], ''Sm147_Nd144_Corr'', ''G_LREE'')]
   \<and> propagated (runDRS_v48 no_rm_host) = []
   \<and> propagated (runDRS_v49 example_host) = []"
  using error_propagation_calls [of example_host "''G_LREE''"]
    error_propagation_calls [of no_rm_host "''G_LREE''"]
  by (simp add: example_host_def no_rm_host_def default_settings_def resolve_rm_def
      example_groups_def)

section \<open>Reference-material resolution\<close>

text \<open>
  C3: a configured name that a reference-material group carries is kept and the settings
  are not written; otherwise \<open>G_LREE\<close> is taken when a group carries it, otherwise the
  first group name, and the chosen name is written to the settings; with no
  reference-material group the run sends its error message, signals completion and returns
  having created no series.
\<close>

theorem reference_material_resolution:
  assumes "run = runDRS_v48 \<or> run = runDRS_v49"
  shows
    "(ReferenceMaterial (drs_settings h) \<in> set (rmNames h) \<longrightarrow>
        resolves_as (run h) (ReferenceMaterial (drs_settings h)) False)
     \<and> (ReferenceMaterial (drs_settings h) \<notin> set (rmNames h) \<and> ''G_LREE'' \<in> set (rmNames h) \<longrightarrow>
        resolves_as (run h) ''G_LREE'' True)
     \<and> (ReferenceMaterial (drs_settings h) \<notin> set (rmNames h) \<and> ''G_LREE'' \<notin> set (rmNames h)
          \<and> rmNames h \<noteq> [] \<longrightarrow>
        resolves_as (run h) (hd (rmNames h)) True)
     \<and> (rmNames h = [] \<longrightarrow>
        created (run h) = [] \<and> settings_written (run h) = []
        \<and> runDRS_v49 h
            = start_v49 @ [Message ''Error: No reference material available.'', Finished]
        \<and> runDRS_v48 h
            = start_v48
              @ [Message ''Error: No reference material available. Please define one in your data.'',
                 Finished])"
proof -
  have none: "rmNames h = [] \<Longrightarrow> resolve_rm (ReferenceMaterial (drs_settings h)) (rmNames h) = None"
    by simp
  have a: "ReferenceMaterial (drs_settings h) \<in> set (rmNames h) \<Longrightarrow>
      resolve_rm (ReferenceMaterial (drs_settings h)) (rmNames h)
        = Some (ReferenceMaterial (drs_settings h))"
    by (simp add: resolve_rm_def)
  have b: "ReferenceMaterial (drs_settings h) \<notin> set (rmNames h) \<Longrightarrow> ''G_LREE'' \<in> set (rmNames h) \<Longrightarrow>
      resolve_rm (ReferenceMaterial (drs_settings h)) (rmNames h) = Some ''G_LREE''"
    by (simp add: resolve_rm_def)
  have c: "ReferenceMaterial (drs_settings h) \<notin> set (rmNames h) \<Longrightarrow> ''G_LREE'' \<notin> set (rmNames h) \<Longrightarrow>
      rmNames h \<noteq> [] \<Longrightarrow>
      resolve_rm (ReferenceMaterial (drs_settings h)) (rmNames h) = Some (hd (rmNames h))"
    by (simp add: resolve_rm_def)
  from assms show ?thesis
  proof
    assume "run = runDRS_v48"
    then show ?thesis
      using a b c none by (auto simp: runDRS_v48_def runDRS_v49_def resolves_as_def)
  next
    assume "run = runDRS_v49"
    then show ?thesis
      using a b c none by (auto simp: runDRS_v48_def runDRS_v49_def resolves_as_def)
  qed
qed


theorem reference_material_resolution_witness:
  "resolves_as (runDRS_v49 example_host) ''G_LREE'' False
   \<and> resolves_as (runDRS_v48 renamed_host) ''G_LREE'' True
   \<and> resolves_as (runDRS_v49 no_fallback_host) ''JNdi'' True
   \<and> created (runDRS_v48 no_rm_host) = []
   \<and> runDRS_v49 no_rm_host
       = start_v49 @ [Message ''Error: No reference material available.'', Finished]"
  using reference_material_resolution [of runDRS_v49 example_host]
    reference_material_resolution [of runDRS_v48 renamed_host]
    reference_material_resolution [of runDRS_v49 no_fallback_host]
    reference_material_resolution [of runDRS_v48 no_rm_host]
  by (simp add: example_host_def renamed_host_def no_fallback_host_def no_rm_host_def
      default_settings_def)

section \<open>Failure of one standardization\<close>

theorem failed_ratio_changes_rho_counterexample:
  "writes_to ''rho'' (runDRS_v49 unit_host) =
     [CreateTimeSeries ''rho'' [NaN, NaN, NaN], SetData ''rho'' [Fin 1, Fin 1, Fin 1]]
   \<and> writes_to ''rho'' (runDRS_v49 spline_failing_host) =
     [CreateTimeSeries ''rho'' [NaN, NaN, NaN]]"
proof -
  have a: "Fin 1 = fst (first_rho unit_host
             (store_of (rho_series unit_host (start_v49 @ outputs_v49 unit_host ''G_LREE'')))
             (selectionGroupList unit_host))"
    using unit_first_rho(1) by (simp add: unit_run_shape)
  have b: "NaN = fst (first_rho spline_failing_host
             (store_of (rho_series spline_failing_host
                (start_v49 @ outputs_v49 spline_failing_host ''G_LREE'')))
             (selectionGroupList spline_failing_host))"
    using unit_first_rho(2) by (simp add: unit_run_shape)
  show ?thesis
    unfolding unit_run_shape rho_series_flat(1) [OF a] rho_series_flat(1) [OF b]
    by (simp add: rho_not_in_outputs unit_length numeral_3_eq_3)
qed

text \<open>
  C4, amended: for each standardized ratio on its own, an error of spline construction, of
  spline evaluation or of the accepted-value lookup ends the \<open>try\<close> body; the series
  published for that ratio is then NaN at every sample, as long as the raw series, and the
  warning message is sent. The block of a ratio depends on the host's answers for that
  ratio only, so the other ratio is what it is without the failure; the later engine
  outputs are the engine's values, the flat rho series is still created, and the run ends
  with its completion signal. The value of the flat rho series is not covered: it is
  computed from both standardized series.
\<close>

theorem standardization_failure_is_contained:
  assumes "run = runDRS_v48 \<or> run = runDRS_v49"
    and "resolve_rm (ReferenceMaterial (drs_settings h)) (rmNames h) = Some r"
  shows
    "(createSpline h r nm = Some x \<longrightarrow> std_try h r nm key raw = Inl x)
     \<and> (createSpline h r nm = None \<and> spline h r nm = Inl x \<longrightarrow> std_try h r nm key raw = Inl x)
     \<and> (createSpline h r nm = None \<and> spline h r nm = Inr sp
          \<and> referenceMaterialData h r key = Inl x \<longrightarrow> std_try h r nm key raw = Inl x)
     \<and> (std_try h r nm key raw = Inl (Exn e) \<longrightarrow>
          std_block h r nm key raw =
            (replicate (length raw) NaN,
             [CreateSpline r nm,
              Message (''Warning: Standard correction for '' @ key @ '' failed: '' @ e)]))
     \<and> (createSpline h' r nm = createSpline h r nm \<and> spline h' r nm = spline h r nm
          \<and> referenceMaterialData h' r key = referenceMaterialData h r key \<longrightarrow>
          std_block h' r nm key raw = std_block h r nm key raw)
     \<and> store_of (run h) ''StdCorr_143Nd_144'' =
          Some (fst (std_block h r ''Nd143_144_Corr'' ''143Nd/144Nd''
                      (map (Nd143_144_Corr (drs_settings h)) (samples h))))
     \<and> store_of (run h) ''StdCorr_147Sm_144'' =
          Some (fst (std_block h r ''Sm147_Nd144_Corr'' ''147Sm/144Nd''
                      (map (Sm147_Nd144_Corr (drs_settings h)) (samples h))))
     \<and> set (snd (std_block h r ''Nd143_144_Corr'' ''143Nd/144Nd''
                   (map (Nd143_144_Corr (drs_settings h)) (samples h)))) \<subseteq> set (run h)
     \<and> set (snd (std_block h r ''Sm147_Nd144_Corr'' ''147Sm/144Nd''
                   (map (Sm147_Nd144_Corr (drs_settings h)) (samples h)))) \<subseteq> set (run h)
     \<and> store_of (run h) ''Nd145_144_Corr''
          = Some (map (Nd145_144_Corr (drs_settings h)) (samples h))
     \<and> store_of (run h) ''Nd148_144_Corr''
          = Some (map (Nd148_144_Corr (drs_settings h)) (samples h))
     \<and> store_of (run h) ''NdFract'' = Some (map (NdFract (drs_settings h)) (samples h))
     \<and> store_of (run h) ''SmFract'' = Some (map (SmFract (drs_settings h)) (samples h))
     \<and> store_of (run h) ''TotalNd'' = Some (map TotalNd (samples h))
     \<and> (\<exists>v. store_of (run h) ''rho'' = Some (replicate (length (samples h)) v))
     \<and> last (run h) = Finished"
proof (intro conjI impI)
  assume "createSpline h r nm = Some x"
  then show "std_try h r nm key raw = Inl x" by (simp add: std_try_def)
next
  assume "createSpline h r nm = None \<and> spline h r nm = Inl x"
  then show "std_try h r nm key raw = Inl x" by (simp add: std_try_def)
next
  assume "createSpline h r nm = None \<and> spline h r nm = Inr sp
          \<and> referenceMaterialData h r key = Inl x"
  then show "std_try h r nm key raw = Inl x" by (simp add: std_try_def)
next
  assume "std_try h r nm key raw = Inl (Exn e)"
  then show "std_block h r nm key raw =
            (replicate (length raw) NaN,
             [CreateSpline r nm,
              Message (''Warning: Standard correction for '' @ key @ '' failed: '' @ e)])"
    by (rule std_block_failed)
next
  assume "createSpline h' r nm = createSpline h r nm \<and> spline h' r nm = spline h r nm
          \<and> referenceMaterialData h' r key = referenceMaterialData h r key"
  then show "std_block h' r nm key raw = std_block h r nm key raw"
    by (elim conjE) (rule std_block_cong)
next
  show "store_of (run h) ''StdCorr_143Nd_144'' =
          Some (fst (std_block h r ''Nd143_144_Corr'' ''143Nd/144Nd''
                      (map (Nd143_144_Corr (drs_settings h)) (samples h))))"
    using assms by (rule run_store_std(2))
  show "store_of (run h) ''StdCorr_147Sm_144'' =
          Some (fst (std_block h r ''Sm147_Nd144_Corr'' ''147Sm/144Nd''
                      (map (Sm147_Nd144_Corr (drs_settings h)) (samples h))))"
    using assms by (rule run_store_std(1))
  show "set (snd (std_block h r ''Nd143_144_Corr'' ''143Nd/144Nd''
                   (map (Nd143_144_Corr (drs_settings h)) (samples h)))) \<subseteq> set (run h)"
    using assms by (rule run_block143)
  show "set (snd (std_block h r ''Sm147_Nd144_Corr'' ''147Sm/144Nd''
                   (map (Sm147_Nd144_Corr (drs_settings h)) (samples h)))) \<subseteq> set (run h)"
    using assms by (rule run_block147)
  show "store_of (run h) ''Nd145_144_Corr''
          = Some (map (Nd145_144_Corr (drs_settings h)) (samples h))"
    using assms by (rule run_store_engine(1))
  show "store_of (run h) ''Nd148_144_Corr''
          = Some (map (Nd148_144_Corr (drs_settings h)) (samples h))"
    using assms by (rule run_store_engine(2))
  show "store_of (run h) ''NdFract'' = Some (map (NdFract (drs_settings h)) (samples h))"
    using assms by (rule run_store_engine(3))
  show "store_of (run h) ''SmFract'' = Some (map (SmFract (drs_settings h)) (samples h))"
    using assms by (rule run_store_engine(4))
  show "store_of (run h) ''TotalNd'' = Some (map TotalNd (samples h))"
    using assms by (rule run_store_engine(5))
  show "\<exists>v. store_of (run h) ''rho'' = Some (replicate (length (samples h)) v)"
    using assms by (rule run_finishes(2))
  show "last (run h) = Finished"
    using assms by (rule run_finishes(1))
qed


theorem standardization_failure_is_contained_witness:
  "std_block spline_failing_host ''G_LREE'' ''Nd143_144_Corr'' ''143Nd/144Nd''
       [Fin 1, Fin 10, Fin 100]
     = (replicate (length [Fin 1, Fin 10, Fin 100]) NaN,
        [CreateSpline ''G_LREE'' ''Nd143_144_Corr'',
         Message (''Warning: Standard correction for '' @ ''143Nd/144Nd'' @ '' failed: ''
                  @ ''no spline'')])
   \<and> store_of (runDRS_v49 spline_failing_host) ''StdCorr_143Nd_144'' = Some [NaN, NaN, NaN]
   \<and> store_of (runDRS_v49 spline_failing_host) ''StdCorr_147Sm_144''
       = Some [Fin 1, Fin 10, Fin 100]
   \<and> last (runDRS_v49 spline_failing_host) = Finished"
proof -
  note t = standardization_failure_is_contained
    [where run = runDRS_v49 and h = spline_failing_host and r = "''G_LREE''"
       and nm = "''Nd143_144_Corr''" and x = "Exn ''no spline''" and key = "''143Nd/144Nd''"
       and raw = "[Fin 1, Fin 10, Fin 100]" and sp = "[]" and e = "''no spline''"
       and h' = spline_failing_host,
     OF disjI2 [OF refl] unit_resolve(2)]
  have c: "createSpline spline_failing_host ''G_LREE'' ''Nd143_144_Corr''
             = Some (Exn ''no spline'')"
    by (simp add: spline_failing_host_def)
  from t have i1: "createSpline spline_failing_host ''G_LREE'' ''Nd143_144_Corr''
        = Some (Exn ''no spline'') \<longrightarrow>
      std_try spline_failing_host ''G_LREE'' ''Nd143_144_Corr'' ''143Nd/144Nd''
        [Fin 1, Fin 10, Fin 100] = Inl (Exn ''no spline'')"
    by (elim conjE)
  from t have i2: "std_try spline_failing_host ''G_LREE'' ''Nd143_144_Corr'' ''143Nd/144Nd''
        [Fin 1, Fin 10, Fin 100] = Inl (Exn ''no spline'') \<longrightarrow>
      std_block spline_failing_host ''G_LREE'' ''Nd143_144_Corr'' ''143Nd/144Nd''
        [Fin 1, Fin 10, Fin 100]
        = (replicate (length [Fin 1, Fin 10, Fin 100]) NaN,
           [CreateSpline ''G_LREE'' ''Nd143_144_Corr'',
            Message (''Warning: Standard correction for '' @ ''143Nd/144Nd'' @ '' failed: ''
                     @ ''no spline'')])"
    by (elim conjE)
  from t have s143: "store_of (runDRS_v49 spline_failing_host) ''StdCorr_143Nd_144'' =
          Some (fst (std_block spline_failing_host ''G_LREE'' ''Nd143_144_Corr'' ''143Nd/144Nd''
                      (map (Nd143_144_Corr (drs_settings spline_failing_host))
                         (samples spline_failing_host))))"
    by (elim conjE)
  from t have s147: "store_of (runDRS_v49 spline_failing_host) ''StdCorr_147Sm_144'' =
          Some (fst (std_block spline_failing_host ''G_LREE'' ''Sm147_Nd144_Corr'' ''147Sm/144Nd''
                      (map (Sm147_Nd144_Corr (drs_settings spline_failing_host))
                         (samples spline_failing_host))))"
    by (elim conjE)
  from t have fin: "last (runDRS_v49 spline_failing_host) = Finished"
    by (elim conjE)
  have 1: "std_block spline_failing_host ''G_LREE'' ''Nd143_144_Corr'' ''143Nd/144Nd''
        [Fin 1, Fin 10, Fin 100]
        = (replicate (length [Fin 1, Fin 10, Fin 100]) NaN,
           [CreateSpline ''G_LREE'' ''Nd143_144_Corr'',
            Message (''Warning: Standard correction for '' @ ''143Nd/144Nd'' @ '' failed: ''
                     @ ''no spline'')])"
    using i1 i2 c by blast
  have 2: "store_of (runDRS_v49 spline_failing_host) ''StdCorr_143Nd_144'' = Some [NaN, NaN, NaN]"
    unfolding s143 unit_raw unit_std_block by simp
  have 3: "store_of (runDRS_v49 spline_failing_host) ''StdCorr_147Sm_144''
       = Some [Fin 1, Fin 10, Fin 100]"
    unfolding s147 unit_raw unit_std_block by simp
  show ?thesis using 1 2 3 fin by blast
qed

section \<open>The rho diagnostic degrades to NaN\<close>

text \<open>
  C5: an exception of the \<open>try\<close> body, from either lookup, either extraction or the
  array computation, gives NaN and one message that names the selection. On extracted
  arrays of one length the diagnostic keeps exactly the pairs in which both values are not
  NaN and strictly positive: with none of them the result is NaN, otherwise it is the
  correlation coefficient of their base-10 logarithms, and with fewer than two of them it
  is NaN. Arrays of different lengths give NaN as well.
\<close>

theorem rho_diagnostic_degrades_to_NaN:
  "(rho_try h st sel = Inl (Exn e) \<longrightarrow>
      rho_corr_147Sm_143Nd h st sel =
        (NaN, [Message (''[rho_corr_147Sm_143Nd] Error in selection '' @ sg_name sel
                        @ '': '' @ e)]))
   \<and> (timeSeries st ''StdCorr_147Sm_144'' = Inl x \<longrightarrow> rho_try h st sel = Inl x)
   \<and> (timeSeries st ''StdCorr_147Sm_144'' = Inr ts147 \<and> dataForSelection h ts147 sel = Inl x \<longrightarrow>
      rho_try h st sel = Inl x)
   \<and> (timeSeries st ''StdCorr_147Sm_144'' = Inr ts147 \<and> dataForSelection h ts147 sel = Inr sm
      \<and> timeSeries st ''StdCorr_143Nd_144'' = Inr ts143 \<and> dataForSelection h ts143 sel = Inl x \<longrightarrow>
      rho_try h st sel = Inl x)
   \<and> (timeSeries st ''StdCorr_147Sm_144'' = Inr ts147 \<and> dataForSelection h ts147 sel = Inr sm
      \<and> timeSeries st ''StdCorr_143Nd_144'' = Inr ts143 \<and> dataForSelection h ts143 sel = Inr nd \<longrightarrow>
      (length sm = length nd \<longrightarrow>
         rho_corr_147Sm_143Nd h st sel =
           (if valid_pairs sm nd = [] then NaN
            else corrcoef01 (map flog10 (map fst (valid_pairs sm nd)))
                   (map flog10 (map snd (valid_pairs sm nd))), [])
         \<and> (length (valid_pairs sm nd) < 2 \<longrightarrow> rho_corr_147Sm_143Nd h st sel = (NaN, [])))
      \<and> (length sm \<noteq> length nd \<longrightarrow> fst (rho_corr_147Sm_143Nd h st sel) = NaN))"
proof (intro conjI impI)
  assume "rho_try h st sel = Inl (Exn e)"
  then show "rho_corr_147Sm_143Nd h st sel =
        (NaN, [Message (''[rho_corr_147Sm_143Nd] Error in selection '' @ sg_name sel
                        @ '': '' @ e)])"
    by (rule rho_corr_Inl)
next
  assume "timeSeries st ''StdCorr_147Sm_144'' = Inl x"
  then show "rho_try h st sel = Inl x" by (simp add: rho_try_def)
next
  assume "timeSeries st ''StdCorr_147Sm_144'' = Inr ts147 \<and> dataForSelection h ts147 sel = Inl x"
  then show "rho_try h st sel = Inl x" by (simp add: rho_try_def)
next
  assume "timeSeries st ''StdCorr_147Sm_144'' = Inr ts147 \<and> dataForSelection h ts147 sel = Inr sm
      \<and> timeSeries st ''StdCorr_143Nd_144'' = Inr ts143 \<and> dataForSelection h ts143 sel = Inl x"
  then show "rho_try h st sel = Inl x" by (simp add: rho_try_def)
next
  assume a: "timeSeries st ''StdCorr_147Sm_144'' = Inr ts147 \<and> dataForSelection h ts147 sel = Inr sm
      \<and> timeSeries st ''StdCorr_143Nd_144'' = Inr ts143 \<and> dataForSelection h ts143 sel = Inr nd"
  then have t: "rho_try h st sel = rho_of_arrays sm nd" by (simp add: rho_try_extracted)
  {
    assume l: "length sm = length nd"
    show "rho_corr_147Sm_143Nd h st sel =
           (if valid_pairs sm nd = [] then NaN
            else corrcoef01 (map flog10 (map fst (valid_pairs sm nd)))
                   (map flog10 (map snd (valid_pairs sm nd))), [])"
      using t l by (simp add: rho_corr_147Sm_143Nd_def rho_of_arrays_same_length)
    assume "length (valid_pairs sm nd) < 2"
    then show "rho_corr_147Sm_143Nd h st sel = (NaN, [])"
      using t l by (simp add: rho_corr_147Sm_143Nd_def few_valid_pairs)
  }
  assume "length sm \<noteq> length nd"
  then show "fst (rho_corr_147Sm_143Nd h st sel) = NaN"
    using t rho_of_arrays_mismatch [of sm nd]
    by (auto simp add: rho_corr_147Sm_143Nd_def split: exn.splits)
qed


theorem rho_diagnostic_degrades_to_NaN_witness:
  "rho_corr_147Sm_143Nd example_host Map.empty \<lparr>sg_name = ''Sample_A'', sg_type = Sample_t\<rparr> =
     (NaN, [Message (''[rho_corr_147Sm_143Nd] Error in selection '' @ ''Sample_A'' @ '': ''
                     @ ''NoneType object has no attribute dataForSelection'')])
   \<and> valid_pairs [Fin 2, NaN] [Fin 3, Fin 1] = [(Fin 2, Fin 3)]
   \<and> rho_corr_147Sm_143Nd example_host example_store
        \<lparr>sg_name = ''Sample_A'', sg_type = Sample_t\<rparr> = (NaN, [])"
proof -
  let ?sel = "\<lparr>sg_name = ''Sample_A'', sg_type = Sample_t\<rparr>"
  let ?msg = "''NoneType object has no attribute dataForSelection''"
  have a: "timeSeries Map.empty ''StdCorr_147Sm_144'' = Inl (Exn ?msg)"
    by (simp add: timeSeries_def)
  have b: "timeSeries example_store ''StdCorr_147Sm_144'' = Inr [Fin 2, NaN]
           \<and> dataForSelection example_host [Fin 2, NaN] ?sel = Inr [Fin 2, NaN]
           \<and> timeSeries example_store ''StdCorr_143Nd_144'' = Inr [Fin 3, Fin 1]
           \<and> dataForSelection example_host [Fin 3, Fin 1] ?sel = Inr [Fin 3, Fin 1]"
    by (simp add: timeSeries_def example_store_def example_host_def)
  have c: "valid_pairs [Fin 2, NaN] [Fin 3, Fin 1] = [(Fin 2, Fin 3)]"
    by (simp add: valid_pairs_def)
  from a rho_diagnostic_degrades_to_NaN
    [of example_host Map.empty ?sel ?msg "Exn ?msg" "[]" "[]" "[]" "[]"]
  have 1: "rho_corr_147Sm_143Nd example_host Map.empty ?sel =
     (NaN, [Message (''[rho_corr_147Sm_143Nd] Error in selection '' @ ''Sample_A'' @ '': ''
                     @ ?msg)])"
    by simp
  from b c rho_diagnostic_degrades_to_NaN
    [of example_host example_store ?sel ?msg "Exn ?msg" "[Fin 2, NaN]" "[Fin 2, NaN]"
      "[Fin 3, Fin 1]" "[Fin 3, Fin 1]"]
  have 2: "rho_corr_147Sm_143Nd example_host example_store ?sel = (NaN, [])"
    by (simp add: corrcoef01_single)
  show ?thesis using 1 2 c by simp
qed

section \<open>Scaling the inputs of the rho diagnostic\<close>

lemma fadd_shift_assoc: "fadd (fadd (Fin c) b) x = fadd (Fin c) (fadd b x)"
  by (cases b; cases x) auto

lemma fadd_shift_comm: "fadd a (fadd (Fin c) x) = fadd (Fin c) (fadd a x)"
  by (cases a; cases x) auto

lemma fadd_shift_shift: "fadd (Fin c) (fadd (Fin d) x) = fadd (Fin (c + d)) x"
  by (cases x) auto

lemma fsub_shift: "fsub (fadd (Fin c) a) (fadd (Fin c) m) = fsub a m"
  by (cases a; cases m) (auto simp: fsub_def)

lemma fdiv_shift:
  "0 < n \<Longrightarrow> fdiv (fadd (Fin (c * n)) s) (Fin n) = fadd (Fin c) (fdiv s (Fin n))"
  by (cases s) (auto simp: inf_of_def field_simps)

lemma foldl_fadd_shift_init: "foldl fadd (fadd (Fin c) b) xs = fadd (Fin c) (foldl fadd b xs)"
  by (induction xs arbitrary: b) (simp_all add: fadd_shift_assoc)

lemma foldl_fadd_shift:
  "foldl fadd a (map (fadd (Fin c)) xs) = fadd (Fin (c * real (length xs))) (foldl fadd a xs)"
proof (induction xs arbitrary: a)
  case Nil
  show ?case by simp
next
  case (Cons x xs)
  have "foldl fadd a (map (fadd (Fin c)) (x # xs))
        = fadd (Fin (c * real (length xs))) (foldl fadd (fadd (Fin c) (fadd a x)) xs)"
    by (simp add: Cons fadd_shift_comm)
  also have "\<dots> = fadd (Fin (c * real (length xs))) (fadd (Fin c) (foldl fadd (fadd a x) xs))"
    by (simp add: foldl_fadd_shift_init)
  also have "\<dots> = fadd (Fin (c * real (length (x # xs)))) (foldl fadd a (x # xs))"
    by (simp add: fadd_shift_shift algebra_simps)
  finally show ?case .
qed

lemma centred_shift:
  "map (\<lambda>a. fsub a (fdiv (fsum (map (fadd (Fin c)) xs)) (Fin (real (length xs)))))
       (map (fadd (Fin c)) xs)
   = map (\<lambda>a. fsub a (fdiv (fsum xs) (Fin (real (length xs))))) xs"
proof (cases xs)
  case Nil
  then show ?thesis by simp
next
  case (Cons x xs')
  then have pos: "0 < real (length xs)" by simp
  have "fdiv (fsum (map (fadd (Fin c)) xs)) (Fin (real (length xs)))
        = fadd (Fin c) (fdiv (fsum xs) (Fin (real (length xs))))"
    unfolding fsum_def foldl_fadd_shift by (rule fdiv_shift [OF pos])
  then show ?thesis by (simp add: fsub_shift o_def)
qed

lemma corrcoef01_shift:
  "corrcoef01 (map (fadd (Fin c)) x) (map (fadd (Fin c)) y) = corrcoef01 x y"
  unfolding corrcoef01_def Let_def length_map centred_shift by (rule refl)


lemma scale_valid [simp]:
  "isnan (fmul (Fin 10) a) = isnan a" "fgt0 (fmul (Fin 10) a) = fgt0 a"
  by (cases a; simp add: inf_of_def)+

lemma flog10_scale:
  "\<not> isnan a \<Longrightarrow> fgt0 a \<Longrightarrow> flog10 (fmul (Fin 10) a) = fadd (Fin 1) (flog10 a)"
  by (cases a) (auto simp: inf_of_def log_mult)

lemma scale_valid_map:
  "map (\<lambda>x. \<not> isnan x) (map (fmul (Fin 10)) xs) = map (\<lambda>x. \<not> isnan x) xs"
  "map fgt0 (map (fmul (Fin 10)) xs) = map fgt0 xs"
  by (induction xs) simp_all

lemma valid_mask_scale:
  "valid_mask (map (fmul (Fin 10)) sm) (map (fmul (Fin 10)) nd) = valid_mask sm nd"
  unfolding valid_mask_def scale_valid_map by (rule refl)

lemma valid_pairs_scale:
  "valid_pairs (map (fmul (Fin 10)) sm) (map (fmul (Fin 10)) nd)
   = map (\<lambda>(a, b). (fmul (Fin 10) a, fmul (Fin 10) b)) (valid_pairs sm nd)"
  by (induction sm arbitrary: nd; case_tac nd) (auto simp: valid_pairs_def)

lemma valid_pairs_logs:
  "map flog10 (map fst (map (\<lambda>(a, b). (fmul (Fin 10) a, fmul (Fin 10) b)) (valid_pairs sm nd)))
     = map (fadd (Fin 1)) (map flog10 (map fst (valid_pairs sm nd)))"
  "map flog10 (map snd (map (\<lambda>(a, b). (fmul (Fin 10) a, fmul (Fin 10) b)) (valid_pairs sm nd)))
     = map (fadd (Fin 1)) (map flog10 (map snd (valid_pairs sm nd)))"
  by (auto simp: valid_pairs_def flog10_scale)

lemma rho_of_arrays_scale_mismatch:
  assumes "length sm \<noteq> length nd"
  shows "rho_of_arrays (map (fmul (Fin 10)) sm) (map (fmul (Fin 10)) nd) = rho_of_arrays sm nd"
  using assms
  by (auto simp: rho_of_arrays_def valid_mask_scale bool_index_def split: sum.splits)

lemma rho_scale_exact:
  "rho_of_arrays (map (fmul (Fin 10)) sm) (map (fmul (Fin 10)) nd) = rho_of_arrays sm nd"
proof (cases "length sm = length nd")
  case True
  then have "length (map (fmul (Fin 10)) sm) = length (map (fmul (Fin 10)) nd)" by simp
  then have "rho_of_arrays (map (fmul (Fin 10)) sm) (map (fmul (Fin 10)) nd) =
     Inr (if valid_pairs sm nd = [] then NaN
          else corrcoef01 (map flog10 (map fst (valid_pairs sm nd)))
                 (map flog10 (map snd (valid_pairs sm nd))))"
    by (simp only: rho_of_arrays_same_length valid_pairs_scale valid_pairs_logs
        corrcoef01_shift map_is_Nil_conv)
  then show ?thesis using True by (simp only: rho_of_arrays_same_length)
next
  case False
  then show ?thesis by (rule rho_of_arrays_scale_mismatch)
qed

lemma overflow_bound_pos: "0 < overflow_bound"
  by (simp add: overflow_bound_def)

lemma times10_valid [simp]:
  "isnan (times10 a) = isnan a" "fgt0 (times10 a) = fgt0 a"
  using overflow_bound_pos by (cases a; simp add: times10_def inf_of_def)+

lemma times10_exact: "no_overflow10 x \<Longrightarrow> times10 x = fmul (Fin 10) x"
  by (cases x) (auto simp: times10_def no_overflow10_def inf_of_def)

lemma times10_valid_map:
  "map (\<lambda>x. \<not> isnan x) (map times10 xs) = map (\<lambda>x. \<not> isnan x) xs"
  "map fgt0 (map times10 xs) = map fgt0 xs"
  by (induction xs) simp_all

lemma valid_mask_times10:
  "valid_mask (map times10 sm) (map times10 nd) = valid_mask sm nd"
  unfolding valid_mask_def times10_valid_map by (rule refl)

lemma big_pos: "0 < big"
  by (simp add: big_def)





lemma big_sign [simp]: "\<not> big < 0" "big \<noteq> 0" "0 < big"
  using big_pos by simp_all





text \<open>
  With the arithmetic of the model, which is exact on finite values, the result is
  unchanged as long as no product overflows. This is a fact about the formula, not about
  its evaluation in doubles, which round.
\<close>

lemma rho_scale_exact_without_overflow:
  "valid_mask (map times10 sm) (map times10 nd) = valid_mask sm nd
   \<and> ((\<forall>x \<in> set (sm @ nd). no_overflow10 x) \<longrightarrow>
        rho_of_arrays (map times10 sm) (map times10 nd) = rho_of_arrays sm nd)"
proof (intro conjI impI)
  show "valid_mask (map times10 sm) (map times10 nd) = valid_mask sm nd"
    by (rule valid_mask_times10)
next
  assume a: "\<forall>x \<in> set (sm @ nd). no_overflow10 x"
  have "map times10 sm = map (fmul (Fin 10)) sm" "map times10 nd = map (fmul (Fin 10)) nd"
    using a by (simp_all add: times10_exact)
  then show "rho_of_arrays (map times10 sm) (map times10 nd) = rho_of_arrays sm nd"
    by (simp only: rho_scale_exact)
qed






section \<open>The order of the created series\<close>

lemma created_runDRS_v49:
  "created (runDRS_v49 h) =
     (if rmNames h = [] then []
      else [''Nd143_144_Corr'', ''Sm147_Nd144_Corr'', ''StdCorr_147Sm_144'',
            ''StdCorr_143Nd_144'', ''Nd145_144_Corr'', ''Nd148_144_Corr'', ''NdFract'',
            ''SmFract'', ''TotalNd'', ''rho''])"
  by (simp add: runDRS_v49_def split: option.splits)

lemma created_runDRS_v48:
  "created (runDRS_v48 h) =
     (if rmNames h = [] then []
      else [''Nd143_144_Corr'', ''Sm147_Nd144_Corr'', ''StdCorr_147Sm_144'',
            ''StdCorr_143Nd_144'', ''Nd143_144_Corr'', ''Nd145_144_Corr'', ''Nd148_144_Corr'',
            ''NdFract'', ''SmFract'', ''TotalNd'', ''rho''])"
  by (simp add: runDRS_v48_def split: option.splits)

theorem creation_order_v48_counterexample:
  "created (runDRS_v48 example_host)
     \<noteq> [''Nd143_144_Corr'', ''Sm147_Nd144_Corr'', ''StdCorr_147Sm_144'', ''StdCorr_143Nd_144'',
         ''Nd145_144_Corr'', ''Nd148_144_Corr'', ''NdFract'', ''SmFract'', ''TotalNd'', ''rho'']"
  by (simp add: created_runDRS_v48 example_host_def)

text \<open>
  C7, amended: a run of version 4.9 that resolves a reference material creates its ten
  series in the order of the specification and no other; version 4.8 creates the same
  series in the same order and \<open>Nd143_144_Corr\<close> once more, right after
  \<open>StdCorr_143Nd_144\<close>; a run that finds no reference-material group creates none.
\<close>

theorem output_creation_order:
  "created (runDRS_v49 h) =
     (if rmNames h = [] then []
      else [''Nd143_144_Corr'', ''Sm147_Nd144_Corr'', ''StdCorr_147Sm_144'',
            ''StdCorr_143Nd_144'', ''Nd145_144_Corr'', ''Nd148_144_Corr'', ''NdFract'',
            ''SmFract'', ''TotalNd'', ''rho''])
   \<and> created (runDRS_v48 h) =
     (if rmNames h = [] then []
      else [''Nd143_144_Corr'', ''Sm147_Nd144_Corr'', ''StdCorr_147Sm_144'',
            ''StdCorr_143Nd_144'', ''Nd143_144_Corr'', ''Nd145_144_Corr'', ''Nd148_144_Corr'',
            ''NdFract'', ''SmFract'', ''TotalNd'', ''rho''])"
  by (simp only: created_runDRS_v49 created_runDRS_v48)

theorem output_creation_order_witness:
  "created (runDRS_v49 example_host) =
     [''Nd143_144_Corr'', ''Sm147_Nd144_Corr'', ''StdCorr_147Sm_144'', ''StdCorr_143Nd_144'',
      ''Nd145_144_Corr'', ''Nd148_144_Corr'', ''NdFract'', ''SmFract'', ''TotalNd'', ''rho'']
   \<and> created (runDRS_v48 example_host) =
     [''Nd143_144_Corr'', ''Sm147_Nd144_Corr'', ''StdCorr_147Sm_144'', ''StdCorr_143Nd_144'',
      ''Nd143_144_Corr'', ''Nd145_144_Corr'', ''Nd148_144_Corr'', ''NdFract'', ''SmFract'',
      ''TotalNd'', ''rho'']
   \<and> created (runDRS_v49 no_rm_host) = []"
  using output_creation_order [of example_host] output_creation_order [of no_rm_host]
  by (simp add: example_host_def no_rm_host_def)

section \<open>The all-zero mask\<close>

lemma masked_forms:
  assumes "mask_s s = Fin 0"
  shows "zero_or_NaN (SmFract cfg s)" "zero_or_NaN (NdFract cfg s)"
    "zero_or_NaN (Sm144 cfg s)" "zero_or_NaN (Sm148 cfg s)"
    "zero_or_NaN (Nd144c cfg s)" "zero_or_NaN (Nd148c cfg s)"
    "zero_or_NaN (Nd143_144_Corr cfg s)" "zero_or_NaN (Nd145_144_Corr cfg s)"
    "zero_or_NaN (Nd148_144_Corr cfg s)" "zero_or_NaN (Sm147_Nd144_Corr cfg s)"
    "zero_or_NaN (TotalNd s)"
  unfolding zero_or_NaN_def SmFract_def NdFract_def Sm144_def Sm148_def Nd144c_def Nd148c_def
    Nd143_144_Corr_def Nd145_144_Corr_def Nd148_144_Corr_def Sm147_Nd144_Corr_def TotalNd_def
    assms
  by (rule fmul_zero_cases)+

text \<open>
  C8: when the mask is zero at every sample, each masked product of the engine is zero or
  NaN at every sample.
\<close>

theorem all_zero_mask_products:
  assumes "\<forall>s \<in> set ss. mask_s s = Fin 0"
  shows "list_all zero_or_NaN (map (SmFract cfg) ss)
       \<and> list_all zero_or_NaN (map (NdFract cfg) ss)
       \<and> list_all zero_or_NaN (map (Sm144 cfg) ss)
       \<and> list_all zero_or_NaN (map (Sm148 cfg) ss)
       \<and> list_all zero_or_NaN (map (Nd144c cfg) ss)
       \<and> list_all zero_or_NaN (map (Nd148c cfg) ss)
       \<and> list_all zero_or_NaN (map (Nd143_144_Corr cfg) ss)
       \<and> list_all zero_or_NaN (map (Nd145_144_Corr cfg) ss)
       \<and> list_all zero_or_NaN (map (Nd148_144_Corr cfg) ss)
       \<and> list_all zero_or_NaN (map (Sm147_Nd144_Corr cfg) ss)
       \<and> list_all zero_or_NaN (map TotalNd ss)"
  using assms by (simp add: list_all_iff masked_forms)

theorem all_zero_mask_products_witness:
  "map mask_s [sample_of (Fin 0) (Fin 920), sample_of (Fin 0) (Fin 0)] = [Fin 0, Fin 0]
   \<and> list_all zero_or_NaN
        (map (Nd143_144_Corr default_settings) [sample_of (Fin 0) (Fin 920), sample_of (Fin 0) (Fin 0)])
   \<and> list_all zero_or_NaN
        (map TotalNd [sample_of (Fin 0) (Fin 920), sample_of (Fin 0) (Fin 0)])"
proof -
  have h: "\<forall>s \<in> set [sample_of (Fin 0) (Fin 920), sample_of (Fin 0) (Fin 0)]. mask_s s = Fin 0"
    by (simp add: sample_of_def)
  have m: "map mask_s [sample_of (Fin 0) (Fin 920), sample_of (Fin 0) (Fin 0)] = [Fin 0, Fin 0]"
    by (simp add: sample_of_def)
  show ?thesis
    using m all_zero_mask_products [OF h, of default_settings] by blast
qed

section \<open>Series are written once\<close>

theorem rewrite_v48_counterexample:
  "written (runDRS_v48 example_host) ! 0 = ''Nd143_144_Corr''
   \<and> written (runDRS_v48 example_host) ! 4 = ''Nd143_144_Corr''
   \<and> length (writes_to ''Nd143_144_Corr'' (runDRS_v48 example_host)) = 2"
proof -
  have ne: "rmNames example_host \<noteq> []" by (simp add: example_host_def)
  from written_runDRS_v48 [of example_host] obtain v where
    "written (runDRS_v48 example_host) =
       [''Nd143_144_Corr'', ''Sm147_Nd144_Corr'', ''StdCorr_147Sm_144'',
        ''StdCorr_143Nd_144'', ''Nd143_144_Corr'', ''Nd145_144_Corr'', ''Nd148_144_Corr'',
        ''NdFract'', ''SmFract'', ''TotalNd'', ''rho''] @ (if isnan v then [] else [''rho''])"
    using ne by auto
  then show ?thesis using ne by (simp add: Nd143_writes_runDRS_v48)
qed

text \<open>
  C9, amended: version 4.9 writes no series twice but \<open>rho\<close>; version 4.8 writes no series
  twice but \<open>rho\<close> and \<open>Nd143_144_Corr\<close>, which it creates a second time with the values
  of its first creation. In both versions \<open>rho\<close> is created once, filled with NaN, and
  is then overwritten at most once, wholesale, with one constant value.
\<close>

theorem created_series_not_rewritten:
  "distinct (filter (\<lambda>n. n \<noteq> ''rho'') (written (runDRS_v49 h)))
   \<and> distinct (filter (\<lambda>n. n \<noteq> ''rho'' \<and> n \<noteq> ''Nd143_144_Corr'') (written (runDRS_v48 h)))
   \<and> writes_to ''Nd143_144_Corr'' (runDRS_v48 h) =
       (if rmNames h = [] then []
        else [CreateTimeSeries ''Nd143_144_Corr''
                (map (Nd143_144_Corr (drs_settings h)) (samples h)),
              CreateTimeSeries ''Nd143_144_Corr''
                (map (Nd143_144_Corr (drs_settings h)) (samples h))])
   \<and> (\<exists>v. writes_to ''rho'' (runDRS_v49 h) =
         (if rmNames h = [] then []
          else CreateTimeSeries ''rho'' (replicate (length (samples h)) NaN)
               # (if isnan v then [] else [SetData ''rho'' (replicate (length (samples h)) v)])))
   \<and> (\<exists>v. writes_to ''rho'' (runDRS_v48 h) =
         (if rmNames h = [] then []
          else CreateTimeSeries ''rho'' (replicate (length (samples h)) NaN)
               # (if isnan v then [] else [SetData ''rho'' (replicate (length (samples h)) v)])))"
proof (intro conjI)
  from written_runDRS_v49 [of h] obtain v where
    w: "written (runDRS_v49 h) =
     (if rmNames h = [] then []
      else [''Nd143_144_Corr'', ''Sm147_Nd144_Corr'', ''StdCorr_147Sm_144'',
            ''StdCorr_143Nd_144'', ''Nd145_144_Corr'', ''Nd148_144_Corr'', ''NdFract'',
            ''SmFract'', ''TotalNd'', ''rho''] @ (if isnan v then [] else [''rho'']))"
    by blast
  show "distinct (filter (\<lambda>n. n \<noteq> ''rho'') (written (runDRS_v49 h)))"
    unfolding w by simp
  from written_runDRS_v48 [of h] obtain v' where
    w': "written (runDRS_v48 h) =
     (if rmNames h = [] then []
      else [''Nd143_144_Corr'', ''Sm147_Nd144_Corr'', ''StdCorr_147Sm_144'',
            ''StdCorr_143Nd_144'', ''Nd143_144_Corr'', ''Nd145_144_Corr'', ''Nd148_144_Corr'',
            ''NdFract'', ''SmFract'', ''TotalNd'', ''rho''] @ (if isnan v' then [] else [''rho'']))"
    by blast
  show "distinct (filter (\<lambda>n. n \<noteq> ''rho'' \<and> n \<noteq> ''Nd143_144_Corr'') (written (runDRS_v48 h)))"
    unfolding w' by simp
  show "writes_to ''Nd143_144_Corr'' (runDRS_v48 h) =
       (if rmNames h = [] then []
        else [CreateTimeSeries ''Nd143_144_Corr''
                (map (Nd143_144_Corr (drs_settings h)) (samples h)),
              CreateTimeSeries ''Nd143_144_Corr''
                (map (Nd143_144_Corr (drs_settings h)) (samples h))])"
    by (rule Nd143_writes_runDRS_v48)
  show "\<exists>v. writes_to ''rho'' (runDRS_v49 h) =
         (if rmNames h = [] then []
          else CreateTimeSeries ''rho'' (replicate (length (samples h)) NaN)
               # (if isnan v then [] else [SetData ''rho'' (replicate (length (samples h)) v)]))"
    using written_runDRS_v49 [of h] by blast
  show "\<exists>v. writes_to ''rho'' (runDRS_v48 h) =
         (if rmNames h = [] then []
          else CreateTimeSeries ''rho'' (replicate (length (samples h)) NaN)
               # (if isnan v then [] else [SetData ''rho'' (replicate (length (samples h)) v)]))"
    using written_runDRS_v48 [of h] by blast
qed

theorem created_series_not_rewritten_witness:
  "distinct (filter (\<lambda>n. n \<noteq> ''rho'') (written (runDRS_v49 example_host)))
   \<and> writes_to ''Nd143_144_Corr'' (runDRS_v48 example_host) =
       [CreateTimeSeries ''Nd143_144_Corr''
          (map (Nd143_144_Corr (drs_settings example_host)) (samples example_host)),
        CreateTimeSeries ''Nd143_144_Corr''
          (map (Nd143_144_Corr (drs_settings example_host)) (samples example_host))]
   \<and> writes_to ''Nd143_144_Corr'' (runDRS_v48 no_rm_host) = []"
proof -
  have a: "rmNames example_host \<noteq> []" and b: "rmNames no_rm_host = []"
    by (simp_all add: example_host_def no_rm_host_def)
  show ?thesis
    using created_series_not_rewritten [of example_host]
      created_series_not_rewritten [of no_rm_host] a b
    by simp
qed

section \<open>The flat rho series\<close>

lemma run_is_rho_series:
  assumes "run = runDRS_v48 \<or> run = runDRS_v49" and "rmNames h \<noteq> []"
  shows "\<exists>tr. run h = rho_series h tr \<and> writes_to ''rho'' tr = []"
proof -
  obtain r where r: "resolve_rm (ReferenceMaterial (drs_settings h)) (rmNames h) = Some r"
    using assms(2) by (cases "resolve_rm (ReferenceMaterial (drs_settings h)) (rmNames h)") auto
  from assms(1) show ?thesis
  proof
    assume "run = runDRS_v48"
    then have "run h = rho_series h (start_v48 @ outputs_v48 h r)"
      using r by (simp add: runDRS_v48_def)
    moreover have "writes_to ''rho'' (start_v48 @ outputs_v48 h r) = []"
      by (simp add: rho_not_in_outputs)
    ultimately show ?thesis by blast
  next
    assume "run = runDRS_v49"
    then have "run h = rho_series h (start_v49 @ outputs_v49 h r)"
      using r by (simp add: runDRS_v49_def)
    moreover have "writes_to ''rho'' (start_v49 @ outputs_v49 h r) = []"
      by (simp add: rho_not_in_outputs)
    ultimately show ?thesis by blast
  qed
qed

text \<open>
  C10: in a run that resolves a reference material, if the associated result is NaN for
  every group whose type is not Baseline, the only write to \<open>rho\<close> is its creation and
  the series stays NaN at every sample; otherwise the series is overwritten once with the
  value of the first such group, in the order of enumeration, whose result is not NaN, at
  every sample, and the scan does not go past that group. The results are those the
  associated result gives on the store the run leaves.
\<close>

theorem flat_rho_series:
  assumes "run = runDRS_v48 \<or> run = runDRS_v49" and "rmNames h \<noteq> []"
  shows
    "((\<forall>g \<in> set (selectionGroupList h).
         sg_type g \<noteq> Baseline \<longrightarrow> isnan (fst (rho_corr_147Sm_143Nd h (store_of (run h)) g))) \<longrightarrow>
        writes_to ''rho'' (run h) = [CreateTimeSeries ''rho'' (replicate (length (samples h)) NaN)]
        \<and> store_of (run h) ''rho'' = Some (replicate (length (samples h)) NaN))
     \<and> (selectionGroupList h = pre @ g # post
        \<and> (\<forall>p \<in> set pre.
              sg_type p \<noteq> Baseline \<longrightarrow> isnan (fst (rho_corr_147Sm_143Nd h (store_of (run h)) p)))
        \<and> sg_type g \<noteq> Baseline
        \<and> \<not> isnan (fst (rho_corr_147Sm_143Nd h (store_of (run h)) g)) \<longrightarrow>
        writes_to ''rho'' (run h) =
          [CreateTimeSeries ''rho'' (replicate (length (samples h)) NaN),
           SetData ''rho'' (replicate (length (samples h))
             (fst (rho_corr_147Sm_143Nd h (store_of (run h)) g)))]
        \<and> store_of (run h) ''rho'' =
            Some (replicate (length (samples h))
              (fst (rho_corr_147Sm_143Nd h (store_of (run h)) g)))
        \<and> first_rho h (store_of (run h)) (pre @ g # post)
            = first_rho h (store_of (run h)) (pre @ [g]))"
proof -
  obtain tr where tr: "run h = rho_series h tr" "writes_to ''rho'' tr = []"
    using run_is_rho_series [OF assms] by blast
  define v where "v = fst (first_rho h (store_of (rho_series h tr)) (selectionGroupList h))"
  note flat = rho_series_flat [OF v_def]
  show ?thesis
  proof (intro conjI impI)
    assume "\<forall>g \<in> set (selectionGroupList h).
         sg_type g \<noteq> Baseline \<longrightarrow> isnan (fst (rho_corr_147Sm_143Nd h (store_of (run h)) g))"
    then have "v = NaN" unfolding v_def tr(1) by (rule first_rho_all_NaN)
    then show "writes_to ''rho'' (run h)
        = [CreateTimeSeries ''rho'' (replicate (length (samples h)) NaN)]"
      and "store_of (run h) ''rho'' = Some (replicate (length (samples h)) NaN)"
      using flat tr by simp_all
  next
    assume a: "selectionGroupList h = pre @ g # post
        \<and> (\<forall>p \<in> set pre.
              sg_type p \<noteq> Baseline \<longrightarrow> isnan (fst (rho_corr_147Sm_143Nd h (store_of (run h)) p)))
        \<and> sg_type g \<noteq> Baseline
        \<and> \<not> isnan (fst (rho_corr_147Sm_143Nd h (store_of (run h)) g))"
    then have p: "\<forall>p \<in> set pre.
              sg_type p \<noteq> Baseline \<longrightarrow> isnan (fst (rho_corr_147Sm_143Nd h (store_of (run h)) p))"
      and g: "sg_type g \<noteq> Baseline" "\<not> isnan (fst (rho_corr_147Sm_143Nd h (store_of (run h)) g))"
      and l: "selectionGroupList h = pre @ g # post"
      by simp_all
    have "v = fst (rho_corr_147Sm_143Nd h (store_of (run h)) g)"
      unfolding v_def l using first_rho_first_success(1) [OF p g] by (simp add: tr(1))
    then show "writes_to ''rho'' (run h) =
          [CreateTimeSeries ''rho'' (replicate (length (samples h)) NaN),
           SetData ''rho'' (replicate (length (samples h))
             (fst (rho_corr_147Sm_143Nd h (store_of (run h)) g)))]"
      and "store_of (run h) ''rho'' =
            Some (replicate (length (samples h))
              (fst (rho_corr_147Sm_143Nd h (store_of (run h)) g)))"
      using flat tr g(2) by simp_all
    show "first_rho h (store_of (run h)) (pre @ g # post)
            = first_rho h (store_of (run h)) (pre @ [g])"
      using p g by (rule first_rho_first_success(2))
  qed
qed

theorem flat_rho_series_witness:
  "store_of (runDRS_v49 unit_host) ''rho'' = Some [Fin 1, Fin 1, Fin 1]
   \<and> writes_to ''rho'' (runDRS_v49 unit_host) =
       [CreateTimeSeries ''rho'' [NaN, NaN, NaN], SetData ''rho'' [Fin 1, Fin 1, Fin 1]]
   \<and> store_of (runDRS_v48 no_data_host) ''rho'' = Some [NaN, NaN]"
proof -
  have a: "rmNames unit_host \<noteq> []" "rmNames no_data_host \<noteq> []"
    by (simp_all add: unit_host_def no_data_host_def example_host_def)
  have b: "selectionGroupList unit_host =
      [\<lparr>sg_name = ''Baseline_1'', sg_type = Baseline\<rparr>]
      @ \<lparr>sg_name = ''Sample_A'', sg_type = Sample_t\<rparr> # []"
    by (simp add: unit_host_def)
  have c: "\<forall>g \<in> set (selectionGroupList no_data_host). sg_type g \<noteq> Baseline \<longrightarrow>
      isnan (fst (rho_corr_147Sm_143Nd no_data_host (store_of (runDRS_v48 no_data_host)) g))"
    by (simp add: no_data_rho)
  have d: "length (samples no_data_host) = 2"
    by (simp add: no_data_host_def example_host_def)
  from flat_rho_series [of runDRS_v49 unit_host
      "[\<lparr>sg_name = ''Baseline_1'', sg_type = Baseline\<rparr>]"
      "\<lparr>sg_name = ''Sample_A'', sg_type = Sample_t\<rparr>" "[]"] a(1) b
  have 1: "store_of (runDRS_v49 unit_host) ''rho'' = Some [Fin 1, Fin 1, Fin 1]
     \<and> writes_to ''rho'' (runDRS_v49 unit_host) =
       [CreateTimeSeries ''rho'' [NaN, NaN, NaN], SetData ''rho'' [Fin 1, Fin 1, Fin 1]]"
    by (simp add: unit_rho unit_length numeral_3_eq_3)
  from flat_rho_series [of runDRS_v48 no_data_host] a(2) c d
  have 2: "store_of (runDRS_v48 no_data_host) ''rho'' = Some [NaN, NaN]"
    by (simp add: numeral_2_eq_2)
  show ?thesis using 1 2 by simp
qed

end
